theory Spec2Isabelle
  imports Main "HOL-Library.Word" "HOL-Library.Char_ord" "HOL-Library.List_Lexorder"
begin

unbundle bit_operations_syntax

section \<open>Strings and bytes\<close>

text \<open>
  A Go string and a Go byte slice are both sequences of bytes, and an Isabelle
  \<open>char\<close> is a byte, so both are modelled as \<open>char list\<close>.
\<close>

type_synonym bytes = string

definition HasSuffix :: "string \<Rightarrow> string \<Rightarrow> bool" where
  \<comment> \<open>strings.HasSuffix\<close>
  "HasSuffix s suf = (length suf \<le> length s \<and> drop (length s - length suf) s = suf)"

fun Join :: "string list \<Rightarrow> string \<Rightarrow> string" where
  \<comment> \<open>strings.Join\<close>
  "Join [] sep = []"
| "Join [x] sep = x"
| "Join (x # y # ys) sep = x @ sep @ Join (y # ys) sep"

fun digits :: "nat \<Rightarrow> string" where
  "digits n = (if n < 10 then [char_of (48 + n)] else digits (n div 10) @ [char_of (48 + n mod 10)])"

declare digits.simps [simp del]

definition Itoa :: "int \<Rightarrow> string" where
  \<comment> \<open>strconv.Itoa, and the verb \<open>%d\<close> of fmt.Sprintf; Go's int is taken unbounded\<close>
  "Itoa i = (if i < 0 then CHR ''-'' # digits (nat (- i)) else digits (nat i))"

section \<open>The error model\<close>

record Error =
  ID :: string
  Details :: string

text \<open>
  A value of Go's \<open>error\<close> interface is either the library's own \<open>*Error\<close> or an error
  of another package (URL parsing, the transport, the JSON decoder, a reader), which the
  library passes on as it is; of the latter only the message is kept.
\<close>

datatype goerror = Err Error | Foreign string

definition Error_Error :: "Error \<Rightarrow> string" where
  \<comment> \<open>the method \<open>Error()\<close>: \<open>fmt.Sprintf("%s: %s", e.ID, e.Details)\<close>\<close>
  "Error_Error e = ID e @ '': '' @ Details e"

fun errmsg :: "goerror \<Rightarrow> string" where
  \<comment> \<open>what the verb \<open>%v\<close> prints for an error\<close>
  "errmsg (Err e) = Error_Error e"
| "errmsg (Foreign m) = m"

definition ErrMissingCredentials :: Error where
  "ErrMissingCredentials =
     \<lparr>ID = ''missing_credentials'', Details = ''You must provide the Infinity API key''\<rparr>"

section \<open>Requests, responses and readers\<close>

datatype Reader = Reader (chunks: "bytes list") (rerr: "goerror option")
  \<comment> \<open>an io.Reader: the chunks its Read calls deliver, then EOF (\<open>None\<close>) or an error\<close>

record Request =
  Method :: string
  URL :: string
  Header :: "string \<rightharpoonup> string"
  ReqBody :: "bytes option"
  ContentLength :: int

text \<open>
  Of a response the program reads the status code and the body. The body of a response
  that an HTTP client returns is never nil (net/http promises so), hence no option.
\<close>

record Response =
  StatusCode :: int
  Body :: Reader

record URL_parts =
  Scheme :: string
  Opaque :: string

section \<open>The world outside the client\<close>

text \<open>
  A \<open>*log.Logger\<close> is a pointer: two fields of a client may hold the same logger. A
  logger is therefore a number, and the world maps each logger to the lines written to it
  so far. The world also records every request handed to an HTTP client, in order: the
  network activity of a run. The two timing lines of the trace carry clock readings,
  which are left out; they are entries of their own kind.
\<close>

datatype logentry = Line string | StartRequest string | EndRequest string

record world =
  logs :: "nat \<Rightarrow> logentry list"
  sent :: "Request list"

type_synonym httpClient = "Request \<Rightarrow> goerror + Response"

text \<open>
  The functions of Go's standard library that the program calls and whose code is not
  part of the repository are parameters of the model, collected in one record:
  \<^item> \<open>url_Parse\<close>: url.Parse, of whose result the program reads the scheme only;
  \<^item> \<open>StatusText\<close>: http.StatusText, the reason phrase of a status code;
  \<^item> \<open>DumpRequestOut\<close>, \<open>DumpResponse\<close>: httputil's dumps; \<open>DumpResponse\<close> reads the
    body, so it also returns the response as it is afterwards;
  \<^item> \<open>flate_Write\<close>, \<open>flate_Close\<close>: the bytes that compress/flate's writer emits to the writer
    under it at a Write and at Close, given the chunks written before; \<open>flate_Read\<close>: the
    inflater, returning the data and the number of bytes it consumed;
  \<^item> \<open>os_Open\<close>: os.Open, giving a reader of the file;
  \<^item> \<open>DefaultClient\<close>: http.DefaultClient, that is, the network.
\<close>

record stdlib =
  url_Parse :: "string \<Rightarrow> goerror + URL_parts"
  StatusText :: "int \<Rightarrow> string"
  DumpRequestOut :: "Request \<Rightarrow> goerror + string"
  DumpResponse :: "Response \<Rightarrow> (goerror + string) \<times> Response"
  flate_Write :: "bytes list \<Rightarrow> bytes \<Rightarrow> bytes"
  flate_Close :: "bytes list \<Rightarrow> bytes"
  flate_Read :: "bytes \<Rightarrow> (bytes \<times> nat) option"
  os_Open :: "string \<Rightarrow> goerror + Reader"
  DefaultClient :: httpClient

section \<open>The client and its configuration\<close>

definition DefaultURL :: string where
  "DefaultURL = ''https://api.cylance.com/apiv2/''"

definition AuthHeader :: string where
  "AuthHeader = ''X-IAUTH''"

definition ContentTypeHeader :: string where
  "ContentTypeHeader = ''Content-Type''"

definition ContentLengthHeader :: string where
  "ContentLengthHeader = ''Content-Length''"

definition GzipContentType :: string where
  "GzipContentType = ''application/xgzip''"

text \<open>
  The field \<open>c\<close> of the source is \<open>httpc\<close> here. It is never nil in a client that \<open>New\<close>
  returns, so it is a function and not an optional one.
\<close>

record Client =
  key :: string
  url :: string
  errorlog :: "nat option"
  tracelog :: "nat option"
  httpc :: httpClient

type_synonym OptionFunc = "Client \<Rightarrow> world \<Rightarrow> goerror option \<times> Client \<times> world"

definition Printf :: "nat \<Rightarrow> logentry \<Rightarrow> world \<Rightarrow> world" where
  "Printf l e w = w\<lparr>logs := (logs w)(l := logs w l @ [e])\<rparr>"

definition errorf :: "Client \<Rightarrow> logentry \<Rightarrow> world \<Rightarrow> world" where
  "errorf cl e w = (case errorlog cl of None \<Rightarrow> w | Some l \<Rightarrow> Printf l e w)"

definition tracef :: "Client \<Rightarrow> logentry \<Rightarrow> world \<Rightarrow> world" where
  "tracef cl e w = (case tracelog cl of None \<Rightarrow> w | Some l \<Rightarrow> Printf l e w)"

fun run_options :: "OptionFunc list \<Rightarrow> Client \<Rightarrow> world \<Rightarrow> goerror option \<times> Client \<times> world" where
  \<comment> \<open>the loop of \<open>New\<close> over its options\<close>
  "run_options [] cl w = (None, cl, w)"
| "run_options (option # options) cl w =
     (case option cl w of
        (Some err, cl', w') \<Rightarrow> (Some err, cl', w')
      | (None, cl', w') \<Rightarrow> run_options options cl' w')"

definition newClient :: "stdlib \<Rightarrow> Client" where
  \<comment> \<open>\<open>&Client{url: DefaultURL, c: http.DefaultClient}\<close>, the other fields zero\<close>
  "newClient L =
     \<lparr>key = [], url = DefaultURL, errorlog = None, tracelog = None, httpc = DefaultClient L\<rparr>"

definition New :: "stdlib \<Rightarrow> OptionFunc list \<Rightarrow> world \<Rightarrow> (goerror + Client) \<times> world" where
  "New L options w =
     (case run_options options (newClient L) w of
        (Some err, cl, w1) \<Rightarrow> (Inl err, w1)
      | (None, cl, w1) \<Rightarrow>
          (let w2 = tracef cl (Line (''Using URL ['' @ url cl @ '']\<newline>'')) w1
           in if key cl = []
              then (Inl (Err ErrMissingCredentials), errorf cl (Line ''Missing credentials'') w2)
              else (Inr cl, w2)))"

definition SetKey :: "string \<Rightarrow> OptionFunc" where
  "SetKey k cl w =
     (if k = []
      then (Some (Err ErrMissingCredentials), cl,
            errorf cl (Line (Error_Error ErrMissingCredentials @ ''\<newline>'')) w)
      else (None, cl\<lparr>key := k\<rparr>, w))"

definition SetHTTPClient :: "stdlib \<Rightarrow> httpClient option \<Rightarrow> OptionFunc" where
  "SetHTTPClient L httpClient cl w =
     (case httpClient of
        Some h \<Rightarrow> (None, cl\<lparr>httpc := h\<rparr>, w)
      | None \<Rightarrow> (None, cl\<lparr>httpc := DefaultClient L\<rparr>, w))"

definition with_separator :: "string \<Rightarrow> string" where
  \<comment> \<open>\<open>c.url = rawurl; if !strings.HasSuffix(c.url, "/") { c.url += "/" }\<close>\<close>
  "with_separator rawurl = (if HasSuffix rawurl ''/'' then rawurl else rawurl @ ''/'')"

definition SetURL :: "stdlib \<Rightarrow> string \<Rightarrow> OptionFunc" where
  "SetURL L rawurl0 cl w =
     (let rawurl = (if rawurl0 = [] then DefaultURL else rawurl0)
      in case url_Parse L rawurl of
           Inl err \<Rightarrow>
             (Some err, cl,
              errorf cl (Line (''Invalid URL ['' @ rawurl @ ''] - '' @ errmsg err @ ''\<newline>'')) w)
         | Inr u \<Rightarrow>
             if Scheme u \<noteq> ''http'' \<and> Scheme u \<noteq> ''https''
             then (let err = \<lparr>ID = ''bad_url'',
                               Details = ''Invalid schema specified ['' @ rawurl @ '']''\<rparr>
                   in (Some (Err err), cl, errorf cl (Line (Error_Error err)) w))
             else (None, cl\<lparr>url := with_separator rawurl\<rparr>, w))"


definition SetTraceLog :: "nat option \<Rightarrow> OptionFunc" where
  "SetTraceLog logger cl w = (None, cl\<lparr>tracelog := logger\<rparr>, w)"

section \<open>Building a request\<close>

definition isAlnum :: "char \<Rightarrow> bool" where
  "isAlnum c = ((CHR ''a'' \<le> c \<and> c \<le> CHR ''z'') \<or> (CHR ''A'' \<le> c \<and> c \<le> CHR ''Z'')
                \<or> (CHR ''0'' \<le> c \<and> c \<le> CHR ''9''))"

definition upperhex :: string where
  "upperhex = ''0123456789ABCDEF''"

definition escape_byte :: "char \<Rightarrow> string" where
  \<comment> \<open>one step of url.QueryEscape: unreserved bytes stay, a space becomes a plus sign,
      every other byte becomes a percent sign and two hexadecimal digits\<close>
  "escape_byte c =
     (if c = CHR '' '' then ''+''
      else if isAlnum c \<or> c \<in> set ''-_.~'' then [c]
      else [CHR ''%'', upperhex ! ((of_char c :: nat) div 16), upperhex ! ((of_char c :: nat) mod 16)])"

definition QueryEscape :: "string \<Rightarrow> string" where
  "QueryEscape s = concat (map escape_byte s)"

text \<open>
  The parameters of a request are a Go map from strings to strings: here the list of its
  entries (in any order, with distinct keys). \<open>Values.Encode\<close> sorts the keys and joins
  the escaped pairs.
\<close>

definition Values_Encode :: "(string \<times> string) list \<Rightarrow> string" where
  "Values_Encode params =
     Join (map (\<lambda>(k, v). QueryEscape k @ ''='' @ QueryEscape v) (sort_key fst params)) ''&''"

definition isTokenChar :: "char \<Rightarrow> bool" where
  "isTokenChar c = (isAlnum c \<or> c \<in> set ''!#$%&*+-.^_|~'' \<or> c = char_of (39 :: nat) \<or> c = char_of (96 :: nat))"

definition http_NewRequest :: "stdlib \<Rightarrow> string \<Rightarrow> string \<Rightarrow> bytes option \<Rightarrow> goerror + Request" where
  \<comment> \<open>http.NewRequest: fails on an invalid method and on a URL that does not parse; for a
      \<open>*bytes.Buffer\<close> body the content length is the buffer's length\<close>
  "http_NewRequest L method0 u body =
     (let method = (if method0 = [] then ''GET'' else method0)
      in if list_all isTokenChar method
         then (case url_Parse L u of
                 Inl err \<Rightarrow> Inl err
               | Inr _ \<Rightarrow>
                   Inr \<lparr>Method = method, URL = u, Header = Map.empty, ReqBody = body,
                        ContentLength = (case body of None \<Rightarrow> 0 | Some b \<Rightarrow> int (length b))\<rparr>)
         else Inl (Foreign (''net/http: invalid method '' @ method)))"

definition Header_Set :: "string \<Rightarrow> string \<Rightarrow> Request \<Rightarrow> Request" where
  \<comment> \<open>\<open>req.Header.Set\<close>; header names are kept as the source writes them (Go puts them in a
      canonical case, which HTTP does not distinguish)\<close>
  "Header_Set k v req = req\<lparr>Header := (Header req)(k \<mapsto> v)\<rparr>"

definition build_request ::
  "stdlib \<Rightarrow> Client \<Rightarrow> string \<Rightarrow> string \<Rightarrow> bytes option \<Rightarrow> int \<Rightarrow> goerror + Request" where
  \<comment> \<open>the part of \<open>do\<close> from \<open>http.NewRequest\<close> to the last \<open>Header.Set\<close>\<close>
  "build_request L cl method rawurl body bodyLength =
     (case http_NewRequest L method (url cl @ rawurl) body of
        Inl err \<Rightarrow> Inl err
      | Inr req0 \<Rightarrow>
          (let req1 = Header_Set AuthHeader (key cl) (Header_Set ''Accept'' ''application/json'' req0)
           in case body of
                None \<Rightarrow> Inr req1
              | Some b \<Rightarrow>
                  Inr (Header_Set ContentLengthHeader (Itoa bodyLength)
                        (Header_Set ContentTypeHeader GzipContentType req1))))"

section \<open>The transport executor\<close>

definition dumpRequest :: "stdlib \<Rightarrow> Client \<Rightarrow> Request \<Rightarrow> world \<Rightarrow> world" where
  "dumpRequest L cl req w =
     (case tracelog cl of
        None \<Rightarrow> w
      | Some _ \<Rightarrow>
          (case DumpRequestOut L req of
             Inr out \<Rightarrow> tracef cl (Line (out @ ''\<newline>'')) w
           | Inl _ \<Rightarrow> w))"

definition dumpResponse :: "stdlib \<Rightarrow> Client \<Rightarrow> Response \<Rightarrow> world \<Rightarrow> Response \<times> world" where
  "dumpResponse L cl resp w =
     (case tracelog cl of
        None \<Rightarrow> (resp, w)
      | Some _ \<Rightarrow>
          (case DumpResponse L resp of
             (Inr out, resp') \<Rightarrow> (resp', tracef cl (Line (out @ ''\<newline>'')) w)
           | (Inl _, resp') \<Rightarrow> (resp', w)))"

definition dump_to_errorlog :: "stdlib \<Rightarrow> Client \<Rightarrow> Response \<Rightarrow> world \<Rightarrow> world" where
  \<comment> \<open>the block \<open>if c.errorlog != nil { out, err := httputil.DumpResponse(resp, true); ... }\<close>,
      which \<open>handleError\<close> and \<open>do\<close> both contain\<close>
  "dump_to_errorlog L cl resp w =
     (case errorlog cl of
        None \<Rightarrow> w
      | Some _ \<Rightarrow>
          (case fst (DumpResponse L resp) of
             Inr out \<Rightarrow> errorf cl (Line (out @ ''\<newline>'')) w
           | Inl _ \<Rightarrow> w))"

definition status_msg :: "stdlib \<Rightarrow> int \<Rightarrow> string" where
  \<comment> \<open>\<open>fmt.Sprintf("Unexpected status code: %d (%s)", code, http.StatusText(code))\<close>\<close>
  "status_msg L code = ''Unexpected status code: '' @ Itoa code @ '' ('' @ StatusText L code @ '')''"

definition handleError :: "stdlib \<Rightarrow> Client \<Rightarrow> Response \<Rightarrow> world \<Rightarrow> goerror option \<times> world" where
  \<comment> \<open>the message is handed to \<open>errorf\<close> as a format; it holds no verb, so it is logged as it is\<close>
  "handleError L cl resp w =
     (if StatusCode resp < 200 \<or> StatusCode resp \<ge> 300
      then (let w1 = dump_to_errorlog L cl resp w;
                msg = status_msg L (StatusCode resp)
            in (Some (Err \<lparr>ID = ''http_error'', Details = msg\<rparr>), errorf cl (Line msg) w1))
      else (None, w))"

text \<open>
  The parameter \<open>result\<close> of \<open>do\<close> is an \<open>interface{}\<close>: nil, an io.Writer (whose contents so
  far are kept), or a pointer to a value that the JSON decoder fills. The decoder
  (\<open>json.NewDecoder(resp.Body).Decode(result)\<close>) is a parameter \<open>dec\<close>: from the body and the
  value so far it gives the error, the value afterwards (which may be partly filled when
  it fails) and what is left of the body.
\<close>

datatype 'r result = NoResult | Writer bytes | Value 'r

type_synonym 'r decoder = "Reader \<Rightarrow> 'r \<Rightarrow> goerror option \<times> 'r \<times> Reader"

definition receive ::
  "stdlib \<Rightarrow> 'r decoder \<Rightarrow> Client \<Rightarrow> 'r result \<Rightarrow> Response \<times> world \<Rightarrow> goerror option \<times> 'r result \<times> world" where
  \<comment> \<open>the part of \<open>do\<close> after \<open>dumpResponse\<close>: \<open>if result != nil { switch ... }\<close>\<close>
  "receive L dec cl result rw =
     (case rw of (resp, w) \<Rightarrow>
        (case result of
           NoResult \<Rightarrow> (None, NoResult, w)
         | Writer sink \<Rightarrow> (rerr (Body resp), Writer (sink @ concat (chunks (Body resp))), w)
         | Value v \<Rightarrow>
             (case dec (Body resp) v of
                (None, v', rest) \<Rightarrow> (None, Value v', w)
              | (Some err, v', rest) \<Rightarrow>
                  (Some err, Value v', dump_to_errorlog L cl (resp\<lparr>Body := rest\<rparr>) w))))"

definition with_params :: "string \<Rightarrow> (string \<times> string) list \<Rightarrow> string" where
  \<comment> \<open>\<open>if len(params) > 0 { ...; rawurl += "?" + values.Encode() }\<close>\<close>
  "with_params rawurl params =
     (if length params > 0 then rawurl @ ''?'' @ Values_Encode params else rawurl)"

definition round_trip ::
  "Client \<Rightarrow> stdlib \<Rightarrow> string \<Rightarrow> Request \<Rightarrow> world \<Rightarrow> (goerror + Response) \<times> world" where
  \<comment> \<open>the part of \<open>do\<close> around \<open>c.c.Do(req)\<close>: the trace of the request, the call (recorded in
      \<open>sent\<close>), the trace of its end\<close>
  "round_trip cl L rawurl req w =
     (let w1 = (case tracelog cl of
                  None \<Rightarrow> w
                | Some _ \<Rightarrow> tracef cl (StartRequest rawurl) (dumpRequest L cl req w));
          w2 = w1\<lparr>sent := sent w1 @ [req]\<rparr>;
          w3 = (case tracelog cl of
                  None \<Rightarrow> w2
                | Some _ \<Rightarrow> tracef cl (EndRequest rawurl) w2)
      in (httpc cl req, w3))"

definition do ::
  "stdlib \<Rightarrow> 'r decoder \<Rightarrow> Client \<Rightarrow> string \<Rightarrow> string \<Rightarrow> (string \<times> string) list \<Rightarrow> bytes option \<Rightarrow> int
     \<Rightarrow> 'r result \<Rightarrow> world \<Rightarrow> goerror option \<times> 'r result \<times> world" where
  "do L dec cl method rawurl0 params body bodyLength result w =
     (let rawurl = with_params rawurl0 params
      in case build_request L cl method rawurl body bodyLength of
           Inl err \<Rightarrow> (Some err, result, w)
         | Inr req \<Rightarrow>
             (case round_trip cl L rawurl req w of
                (Inl err, w3) \<Rightarrow> (Some err, result, w3)
              | (Inr resp, w3) \<Rightarrow>
                  (case handleError L cl resp w3 of
                     (Some err, w4) \<Rightarrow> (Some err, result, w4)
                   | (None, w4) \<Rightarrow> receive L dec cl result (dumpResponse L cl resp w4))))"

section \<open>The gzip writer\<close>

text \<open>
  \<open>gzip.Writer\<close> over a \<open>bytes.Buffer\<close>, as compress/gzip has it: the ten bytes of the
  header go to the buffer at the first Write; every Write hands its bytes to the deflater,
  which emits to the buffer what it chooses to; Close makes the deflater emit the rest and
  then writes the eight bytes of the trailer (CRC-32 and length of the data, little endian).
  The field \<open>gz_w\<close> holds the bytes written so far to the buffer under the writer,
  \<open>gz_compressor\<close> the chunks handed to the deflater so far.
\<close>

record gzWriter =
  gz_w :: bytes
  gz_wroteHeader :: bool
  gz_closed :: bool
  gz_size :: "32 word"
  gz_digest :: "32 word"
  gz_compressor :: "bytes list"

definition crc_step :: "32 word \<Rightarrow> 32 word" where
  "crc_step x = (if bit x 0 then drop_bit 1 x XOR 0xEDB88320 else drop_bit 1 x)"

definition crc_table :: "32 word \<Rightarrow> 32 word" where
  \<comment> \<open>entry \<open>i\<close> of crc32.IEEETable\<close>
  "crc_table i = (crc_step ^^ 8) i"

definition crc32_Update :: "32 word \<Rightarrow> bytes \<Rightarrow> 32 word" where
  "crc32_Update crc p =
     NOT (foldl (\<lambda>x v. crc_table ((x AND 0xFF) XOR of_char v) XOR drop_bit 8 x) (NOT crc) p)"

definition le32 :: "32 word \<Rightarrow> bytes" where
  \<comment> \<open>binary.LittleEndian.PutUint32\<close>
  "le32 x = map (\<lambda>k. char_of (unat (drop_bit (8 * k) x) mod 256)) [0, 1, 2, 3]"

definition gz_header :: bytes where
  \<comment> \<open>magic 1f 8b, method 8 (deflate), no flags, no modification time, no extra flags,
      operating system 255 (unknown)\<close>
  "gz_header = map char_of [31, 139, 8, 0, 0, 0, 0, 0, 0, 255 :: nat]"

definition gzip_NewWriter :: "bytes \<Rightarrow> gzWriter" where
  "gzip_NewWriter buf =
     \<lparr>gz_w = buf, gz_wroteHeader = False, gz_closed = False, gz_size = 0, gz_digest = 0,
      gz_compressor = []\<rparr>"

definition gz_Write :: "stdlib \<Rightarrow> bytes \<Rightarrow> gzWriter \<Rightarrow> gzWriter" where
  "gz_Write L p z =
     (let z1 = (if gz_wroteHeader z then z
                else z\<lparr>gz_wroteHeader := True, gz_w := gz_w z @ gz_header\<rparr>)
      in z1\<lparr>gz_size := gz_size z1 + of_nat (length p),
             gz_digest := crc32_Update (gz_digest z1) p,
             gz_w := gz_w z1 @ flate_Write L (gz_compressor z1) p,
             gz_compressor := gz_compressor z1 @ [p]\<rparr>)"

definition gz_Close :: "stdlib \<Rightarrow> gzWriter \<Rightarrow> gzWriter" where
  "gz_Close L z =
     (if gz_closed z then z
      else (let z1 = (if gz_wroteHeader z then z else gz_Write L [] z)
            in z1\<lparr>gz_closed := True,
                   gz_w := gz_w z1 @ flate_Close L (gz_compressor z1)
                             @ le32 (gz_digest z1) @ le32 (gz_size z1)\<rparr>))"

definition io_Copy :: "stdlib \<Rightarrow> gzWriter \<Rightarrow> Reader \<Rightarrow> gzWriter \<times> goerror option" where
  \<comment> \<open>\<open>io.Copy(gw, data)\<close>: every non-empty chunk read is written; the error of the reader,
      if any, is returned\<close>
  "io_Copy L gw data = (foldl (\<lambda>z p. if p = [] then z else gz_Write L p z) gw (chunks data), rerr data)"

definition gunzip :: "stdlib \<Rightarrow> bytes \<Rightarrow> bytes option" where
  \<comment> \<open>reading back a stream with a plain header (no flags): the header, the deflate
      stream, and the trailer, whose checksum and length must match\<close>
  "gunzip L s =
     (if length s < 10 then None
      else if take 4 s = take 4 gz_header
      then (case flate_Read L (drop 10 s) of
              None \<Rightarrow> None
            | Some (data, n) \<Rightarrow>
                (let trailer = drop n (drop 10 s)
                 in if length trailer < 8 then None
                    else if take 8 trailer = le32 (crc32_Update 0 data) @ le32 (of_nat (length data))
                    then Some data
                    else None))
      else None)"

section \<open>The public operations\<close>

text \<open>
  The results are maps from strings to responses; the nil map is \<open>None\<close>. The shape of a
  response (QueryResponse, UploadResponse: strings and float32 numbers) plays no part in
  what follows and is a type parameter.
\<close>

fun pointee :: "'r \<Rightarrow> 'r result \<Rightarrow> 'r" where
  \<comment> \<open>the variable behind the pointer \<open>&resp\<close> after \<open>do\<close> has run\<close>
  "pointee v0 (Value v) = v"
| "pointee v0 NoResult = v0"
| "pointee v0 (Writer sink) = v0"

definition Query ::
  "stdlib \<Rightarrow> (string \<rightharpoonup> 'v) decoder \<Rightarrow> Client \<Rightarrow> string \<Rightarrow> string list \<Rightarrow> world
     \<Rightarrow> (string \<rightharpoonup> 'v) option \<times> goerror option \<times> world" where
  "Query L dec cl classifiers0 hash w =
     (if length hash = 0
      then (None, Some (Err \<lparr>ID = ''missing_arg'', Details = ''hash is required''\<rparr>), w)
      else (let classifiers = (if classifiers0 = [] then ''all'' else classifiers0)
            in case do L dec cl ''GET'' ''q'' [(''c'', classifiers), (''h'', Join hash '','')]
                      None 0 (Value Map.empty) w of
                 (err, res, w') \<Rightarrow> (Some (pointee Map.empty res), err, w')))"

text \<open>
  \<open>Upload\<close> also returns its local gzip writer as the deferred \<open>gw.Close()\<close> leaves it when
  the function returns (\<open>None\<close> where the function returns before the writer exists). No
  caller can see it; it is there so that the bytes written to the buffer up to the
  deferred call can be compared with the buffer that \<open>do\<close> was given. The deferred call
  runs after \<open>c.do\<close> has returned, so \<open>do\<close> is given the buffer (and its length) as \<open>io.Copy\<close>
  leaves it.
\<close>

definition Upload ::
  "stdlib \<Rightarrow> (string \<rightharpoonup> 'v) decoder \<Rightarrow> Client \<Rightarrow> string \<Rightarrow> Reader option \<Rightarrow> world
     \<Rightarrow> (string \<rightharpoonup> 'v) option \<times> goerror option \<times> world \<times> gzWriter option" where
  "Upload L dec cl confirmCode data w =
     (if confirmCode = []
      then (None, Some (Err \<lparr>ID = ''missing_arg'', Details = ''Confirmation code is required''\<rparr>), w, None)
      else case data of
             None \<Rightarrow> (None, Some (Err \<lparr>ID = ''missing_arg'', Details = ''Data is required''\<rparr>), w, None)
           | Some rd \<Rightarrow>
               (case io_Copy L (gzip_NewWriter []) rd of
                  (gw, Some err) \<Rightarrow> (None, Some err, w, Some (gz_Close L gw))
                | (gw, None) \<Rightarrow>
                    (case do L dec cl ''PUT'' (''u/'' @ confirmCode) [] (Some (gz_w gw))
                            (int (length (gz_w gw))) (Value Map.empty) w of
                       (err, res, w') \<Rightarrow>
                         (Some (pointee Map.empty res), err, w', Some (gz_Close L gw)))))"

definition UploadFile ::
  "stdlib \<Rightarrow> (string \<rightharpoonup> 'v) decoder \<Rightarrow> Client \<Rightarrow> string \<Rightarrow> string \<Rightarrow> world
     \<Rightarrow> (string \<rightharpoonup> 'v) option \<times> goerror option \<times> world \<times> gzWriter option" where
  "UploadFile L dec cl confirmCode path w =
     (case os_Open L path of
        Inl err \<Rightarrow> (None, Some err, w, None)
      | Inr f \<Rightarrow> Upload L dec cl confirmCode (Some f) w)"

section \<open>A simulated platform\<close>

text \<open>
  The theorems below hold for every standard library, network and decoder. To run the
  model on concrete inputs, this section fixes one small platform: a URL parser that
  finds the scheme as \<open>getScheme\<close> of net/url does, a table of reason phrases, plain-text
  dumps, a deflater that keeps its input until Close and then emits stored blocks (as
  compress/flate keeps a short input in its window until Close), a file system with
  one file, a server that knows one key, and a decoder that reads the empty object.
\<close>

fun getScheme :: "string \<Rightarrow> string \<Rightarrow> string + string \<times> string" where
  \<comment> \<open>the scan of net/url's \<open>getScheme\<close>; the first argument is the part already passed\<close>
  "getScheme seen [] = Inr ([], seen)"
| "getScheme seen (c # cs) =
     (if (CHR ''a'' \<le> c \<and> c \<le> CHR ''z'') \<or> (CHR ''A'' \<le> c \<and> c \<le> CHR ''Z'')
      then getScheme (seen @ [c]) cs
      else if (CHR ''0'' \<le> c \<and> c \<le> CHR ''9'') \<or> c \<in> set ''+-.''
      then (if seen = [] then Inr ([], c # cs) else getScheme (seen @ [c]) cs)
      else if c = CHR '':''
      then (if seen = [] then Inl ''missing protocol scheme'' else Inr (seen, cs))
      else Inr ([], seen @ c # cs))"

definition ToLower :: "string \<Rightarrow> string" where
  "ToLower s = map (\<lambda>c. if CHR ''A'' \<le> c \<and> c \<le> CHR ''Z'' then char_of ((of_char c :: nat) + 32) else c) s"

definition sim_Parse :: "string \<Rightarrow> goerror + URL_parts" where
  "sim_Parse rawurl =
     (case getScheme [] rawurl of
        Inl m \<Rightarrow> Inl (Foreign (''parse '' @ rawurl @ '': '' @ m))
      | Inr (s, rest) \<Rightarrow> Inr \<lparr>Scheme = ToLower s, Opaque = rest\<rparr>)"

definition sim_StatusText :: "int \<Rightarrow> string" where
  "sim_StatusText code =
     (if code = 200 then ''OK''
      else if code = 201 then ''Created''
      else if code = 204 then ''No Content''
      else if code = 301 then ''Moved Permanently''
      else if code = 400 then ''Bad Request''
      else if code = 401 then ''Unauthorized''
      else if code = 403 then ''Forbidden''
      else if code = 404 then ''Not Found''
      else if code = 500 then ''Internal Server Error''
      else if code = 503 then ''Service Unavailable''
      else [])"

definition sim_DumpRequestOut :: "Request \<Rightarrow> goerror + string" where
  "sim_DumpRequestOut req = Inr (Method req @ '' '' @ URL req @ '' HTTP/1.1'')"

definition sim_DumpResponse :: "Response \<Rightarrow> (goerror + string) \<times> Response" where
  "sim_DumpResponse resp =
     (case rerr (Body resp) of
        Some e \<Rightarrow> (Inl e, resp\<lparr>Body := Reader [] (Some e)\<rparr>)
      | None \<Rightarrow>
          (Inr (''HTTP/1.1 '' @ Itoa (StatusCode resp) @ '' '' @ sim_StatusText (StatusCode resp)
                @ ''\<newline>\<newline>'' @ concat (chunks (Body resp))),
           resp))"

definition le16 :: "nat \<Rightarrow> bytes" where
  "le16 n = [char_of (n mod 256), char_of (n div 256 mod 256)]"

definition stored_block :: "bool \<Rightarrow> bytes \<Rightarrow> bytes" where
  \<comment> \<open>a stored block of deflate: the final bit, the length, its complement, the bytes\<close>
  "stored_block final d =
     char_of (if final then 1 else 0 :: nat) # le16 (length d) @ le16 (65535 - length d) @ d"

function stored_blocks :: "bytes \<Rightarrow> bytes" where
  "stored_blocks d =
     (if length d \<le> 65535 then stored_block True d
      else stored_block False (take 65535 d) @ stored_blocks (drop 65535 d))"
  by pat_completeness auto
termination
  by (relation "measure length") auto

declare stored_blocks.simps [simp del]

fun inflate_stored :: "bytes \<Rightarrow> (bytes \<times> nat) option" where
  "inflate_stored (h # l0 # l1 # n0 # n1 # rest) =
     (let len = (of_char l0 :: nat) + 256 * of_char l1;
          nlen = (of_char n0 :: nat) + 256 * of_char n1
      in if 1 < (of_char h :: nat) then None
         else if len + nlen = 65535 \<and> len \<le> length rest
         then (if h = char_of (1 :: nat) then Some (take len rest, 5 + len)
               else (case inflate_stored (drop len rest) of
                       None \<Rightarrow> None
                     | Some (d, n) \<Rightarrow> Some (take len rest @ d, 5 + len + n)))
         else None)"
| "inflate_stored s = None"

definition sim_Open :: "string \<Rightarrow> goerror + Reader" where
  "sim_Open path =
     (if path = ''/tmp/sample.bin'' then Inr (Reader [''hello''] None)
      else Inl (Foreign (''open '' @ path @ '': no such file or directory'')))"

definition sim_server :: httpClient where
  "sim_server req =
     (if Header req AuthHeader = Some ''secret''
      then Inr \<lparr>StatusCode = 200, Body = Reader [''{}''] None\<rparr>
      else Inr \<lparr>StatusCode = 401, Body = Reader [''unauthorized''] None\<rparr>)"

definition simlib :: stdlib where
  "simlib =
     \<lparr>url_Parse = sim_Parse, StatusText = sim_StatusText,
      DumpRequestOut = sim_DumpRequestOut, DumpResponse = sim_DumpResponse,
      flate_Write = (\<lambda>written p. []), flate_Close = (\<lambda>written. stored_blocks (concat written)),
      flate_Read = inflate_stored, os_Open = sim_Open, DefaultClient = sim_server\<rparr>"

definition sim_Decode :: "(string \<rightharpoonup> 'v) decoder" where
  "sim_Decode body v =
     (if rerr body = None \<and> concat (chunks body) = ''{}''
      then (None, v, Reader [] None)
      else (Some (Foreign ''invalid character looking for beginning of value''), v,
            Reader [] (rerr body)))"

definition world0 :: world where
  \<comment> \<open>nothing logged, nothing sent\<close>
  "world0 = \<lparr>logs = (\<lambda>l. []), sent = []\<rparr>"

definition sim_client :: Client where
  \<comment> \<open>what \<open>New(SetKey("secret"))\<close> returns on the simulated platform\<close>
  "sim_client =
     \<lparr>key = ''secret'', url = DefaultURL, errorlog = None, tracelog = None, httpc = sim_server\<rparr>"

text \<open>Some responses, and a client that traces and always meets a failing server.\<close>

definition status_299 :: Response where
  "status_299 = \<lparr>StatusCode = 299, Body = Reader [''{}''] None\<rparr>"

definition not_found :: Response where
  "not_found = \<lparr>StatusCode = 404, Body = Reader [''no such hash''] None\<rparr>"



definition garbled :: Response where
  "garbled = \<lparr>StatusCode = 200, Body = Reader [''<html>''] None\<rparr>"

definition query_ab :: Request where
  "query_ab = \<lparr>Method = ''GET'', URL = ''https://api.cylance.com/apiv2/q?c=all&h=ab'',
               Header = [''Accept'' \<mapsto> ''application/json'', AuthHeader \<mapsto> ''secret''],
               ReqBody = None, ContentLength = 0\<rparr>"

text \<open>What the writer of the simulated platform holds after any number of writes.\<close>

definition sim_writer_inv :: "gzWriter \<Rightarrow> bool" where
  "sim_writer_inv z =
     (gz_closed z = False
      \<and> gz_w z = (if gz_wroteHeader z then gz_header else [])
      \<and> gz_digest z = crc32_Update 0 (concat (gz_compressor z))
      \<and> gz_size z = of_nat (length (concat (gz_compressor z))))"

section \<open>Notions of the specification\<close>

text \<open>
  The specification speaks of a base URL that "ends with exactly one trailing
  separator". In its words: the string ends with a separator and not with two.
\<close>

definition one_trailing_separator :: "string \<Rightarrow> bool" where
  "one_trailing_separator s = (HasSuffix s ''/'' \<and> \<not> HasSuffix s ''//'')"

section \<open>Client construction\<close>

lemma run_options_append:
  "run_options (xs @ ys) cl w =
     (case run_options xs cl w of
        (Some err, cl', w') \<Rightarrow> (Some err, cl', w')
      | (None, cl', w') \<Rightarrow> run_options ys cl' w')"
  by (induction xs arbitrary: cl w) (auto split: prod.splits option.splits)

lemma New_error:
  "run_options options (newClient L) w = (Some err, cl, w1) \<Longrightarrow> fst (New L options w) = Inl err"
  by (simp add: New_def)



lemma sim_Parse_ftp: "sim_Parse ''ftp://x'' = Inr \<lparr>Scheme = ''ftp'', Opaque = ''//x''\<rparr>"
  by (simp add: sim_Parse_def ToLower_def)

lemma sim_Parse_http: "sim_Parse ''http://h'' = Inr \<lparr>Scheme = ''http'', Opaque = ''//h''\<rparr>"
  by (simp add: sim_Parse_def ToLower_def)




section \<open>The base URL\<close>

lemma sim_Parse_http2: "sim_Parse ''http://h//'' = Inr \<lparr>Scheme = ''http'', Opaque = ''//h//''\<rparr>"
  by (simp add: sim_Parse_def ToLower_def)

lemma HasSuffix_iff: "HasSuffix s suf \<longleftrightarrow> (\<exists>p. s = p @ suf)"
proof
  assume h: "HasSuffix s suf"
  then have "s = take (length s - length suf) s @ suf"
    by (metis HasSuffix_def append_take_drop_id)
  then show "\<exists>p. s = p @ suf" ..
next
  assume "\<exists>p. s = p @ suf"
  then show "HasSuffix s suf" by (auto simp: HasSuffix_def)
qed

lemma HasSuffix_with_separator: "HasSuffix (with_separator r) ''/''"
  by (simp add: with_separator_def HasSuffix_iff)

lemma with_separator_idem: "with_separator (with_separator r) = with_separator r"
  using HasSuffix_with_separator [of r] by (simp add: with_separator_def)

lemma one_separator_appended: "\<not> HasSuffix r ''/'' \<Longrightarrow> one_trailing_separator (r @ ''/'')"
proof -
  assume n: "\<not> HasSuffix r ''/''"
  have "\<not> HasSuffix (r @ ''/'') ''//''"
  proof
    assume "HasSuffix (r @ ''/'') ''//''"
    then obtain p where "r @ ''/'' = p @ ''//''" by (auto simp: HasSuffix_iff)
    then have "r = p @ ''/''" by simp
    with n show False by (simp add: HasSuffix_iff)
  qed
  then show ?thesis by (simp add: one_trailing_separator_def HasSuffix_iff)
qed

lemma run_options_failing_option:
  assumes "\<And>cl w. fst (option cl w) \<noteq> None"
  shows "fst (run_options (xs @ option # ys) cl w) \<noteq> None"
proof (induction xs arbitrary: cl w)
  case Nil
  show ?case using assms [of cl w] by (auto split: prod.splits option.splits)
next
  case (Cons x xs)
  show ?case using Cons.IH by (auto split: prod.splits option.splits)
qed

lemma New_fails: "fst (run_options options (newClient L) w) \<noteq> None \<Longrightarrow> isl (fst (New L options w))"
  by (cases "run_options options (newClient L) w") (auto simp: New_def)

lemma SetURL_bad:
  assumes "rawurl \<noteq> []" "url_Parse L rawurl = Inr u" "Scheme u \<noteq> ''http''" "Scheme u \<noteq> ''https''"
  shows "SetURL L rawurl cl w =
           (Some (Err \<lparr>ID = ''bad_url'', Details = ''Invalid schema specified ['' @ rawurl @ '']''\<rparr>), cl,
            errorf cl (Line (''bad_url: Invalid schema specified ['' @ rawurl @ '']'')) w)"
  using assms by (simp add: SetURL_def Let_def Error_Error_def)

text \<open>
  Claim C6. A non-empty URL that parses and whose scheme is neither \<open>http\<close> nor \<open>https\<close>
  makes \<open>SetURL\<close> fail with \<open>bad_url\<close>, whatever the client and the world. \<open>New\<close> with
  this option among its options therefore fails; when the options before it succeed, it
  fails with this \<open>bad_url\<close>.
\<close>

theorem SetURL_bad_scheme:
  assumes "rawurl \<noteq> []" "url_Parse L rawurl = Inr u" "Scheme u \<noteq> ''http''" "Scheme u \<noteq> ''https''"
  shows "fst (SetURL L rawurl cl w)
           = Some (Err \<lparr>ID = ''bad_url'', Details = ''Invalid schema specified ['' @ rawurl @ '']''\<rparr>)
         \<and> isl (fst (New L (before @ SetURL L rawurl # after) w))
         \<and> (run_options before (newClient L) w = (None, cl, w1)
              \<longrightarrow> fst (New L (before @ SetURL L rawurl # after) w)
                    = Inl (Err \<lparr>ID = ''bad_url'', Details = ''Invalid schema specified ['' @ rawurl @ '']''\<rparr>))"
proof (intro conjI impI)
  show "fst (SetURL L rawurl cl w)
           = Some (Err \<lparr>ID = ''bad_url'', Details = ''Invalid schema specified ['' @ rawurl @ '']''\<rparr>)"
    by (simp add: SetURL_bad [OF assms])
next
  have "fst (run_options (before @ SetURL L rawurl # after) (newClient L) w) \<noteq> None"
    by (rule run_options_failing_option) (simp add: SetURL_bad [OF assms])
  then show "isl (fst (New L (before @ SetURL L rawurl # after) w))" by (rule New_fails)
next
  assume "run_options before (newClient L) w = (None, cl, w1)"
  then have "run_options (before @ SetURL L rawurl # after) (newClient L) w
      = (Some (Err \<lparr>ID = ''bad_url'', Details = ''Invalid schema specified ['' @ rawurl @ '']''\<rparr>), cl,
            errorf cl (Line (''bad_url: Invalid schema specified ['' @ rawurl @ '']'')) w1)"
    by (simp add: run_options_append SetURL_bad [OF assms])
  then show "fst (New L (before @ SetURL L rawurl # after) w)
                    = Inl (Err \<lparr>ID = ''bad_url'', Details = ''Invalid schema specified ['' @ rawurl @ '']''\<rparr>)"
    by (rule New_error)
qed

theorem SetURL_bad_scheme_witness:
  "fst (SetURL simlib ''ftp://x'' (newClient simlib) world0)
           = Some (Err \<lparr>ID = ''bad_url'', Details = ''Invalid schema specified [ftp://x]''\<rparr>)
   \<and> isl (fst (New simlib ([SetKey ''k''] @ SetURL simlib ''ftp://x'' # [SetTraceLog None]) world0))
   \<and> fst (New simlib ([SetKey ''k''] @ SetURL simlib ''ftp://x'' # [SetTraceLog None]) world0)
                    = Inl (Err \<lparr>ID = ''bad_url'', Details = ''Invalid schema specified [ftp://x]''\<rparr>)"
proof -
  have p: "url_Parse simlib ''ftp://x'' = Inr \<lparr>Scheme = ''ftp'', Opaque = ''//x''\<rparr>"
    by (simp add: simlib_def sim_Parse_ftp)
  have r: "run_options [SetKey ''k''] (newClient simlib) world0 = (None, (newClient simlib)\<lparr>key := ''k''\<rparr>, world0)"
    by (simp add: SetKey_def)
  show ?thesis
    using SetURL_bad_scheme [OF _ p, of "newClient simlib" world0 "[SetKey ''k'']" "[SetTraceLog None]" world0]
          SetURL_bad_scheme [OF _ p, of "(newClient simlib)\<lparr>key := ''k''\<rparr>" world0 "[SetKey ''k'']" "[SetTraceLog None]" world0] r
    by simp
qed

text \<open>
  Claim C7, as amended. For a URL that \<open>SetURL\<close> accepts (the default one when the argument
  is empty), the stored base URL ends with a separator: a URL that ends with one is
  stored unchanged, a URL that does not has one appended and then ends with exactly one;
  doing it again changes nothing.
\<close>

theorem SetURL_trailing_separator:
  assumes "r = (if rawurl = [] then DefaultURL else rawurl)"
    and "url_Parse L r = Inr u" and "Scheme u = ''http'' \<or> Scheme u = ''https''"
  shows "SetURL L rawurl cl w = (None, cl\<lparr>url := with_separator r\<rparr>, w)
         \<and> HasSuffix (with_separator r) ''/''
         \<and> (if HasSuffix r ''/'' then with_separator r = r
             else with_separator r = r @ ''/'' \<and> one_trailing_separator (with_separator r))
         \<and> with_separator (with_separator r) = with_separator r"
proof (intro conjI)
  show "SetURL L rawurl cl w = (None, cl\<lparr>url := with_separator r\<rparr>, w)"
    using assms by (auto simp: SetURL_def Let_def)
  show "HasSuffix (with_separator r) ''/''" by (rule HasSuffix_with_separator)
  show "if HasSuffix r ''/'' then with_separator r = r
             else with_separator r = r @ ''/'' \<and> one_trailing_separator (with_separator r)"
    using one_separator_appended [of r] by (simp add: with_separator_def)
  show "with_separator (with_separator r) = with_separator r" by (rule with_separator_idem)
qed

text \<open>
  The claim as it stands fails: a URL that ends with two separators is accepted and
  stored as it is, so the stored base URL ends with two.
\<close>

theorem SetURL_two_separators_counterexample:
  "fst (SetURL simlib ''http://h//'' (newClient simlib) world0) = None
   \<and> url (fst (snd (SetURL simlib ''http://h//'' (newClient simlib) world0))) = ''http://h//''
   \<and> \<not> one_trailing_separator (url (fst (snd (SetURL simlib ''http://h//'' (newClient simlib) world0))))"
  by (simp add: SetURL_def simlib_def sim_Parse_http2 with_separator_def HasSuffix_def
      one_trailing_separator_def Let_def)

theorem SetURL_trailing_separator_witness:
  "url (fst (snd (SetURL simlib ''http://h'' (newClient simlib) world0))) = ''http://h/''
   \<and> one_trailing_separator ''http://h/''
   \<and> with_separator ''http://h/'' = ''http://h/''"
proof -
  have p: "url_Parse simlib ''http://h'' = Inr \<lparr>Scheme = ''http'', Opaque = ''//h''\<rparr>"
    by (simp add: simlib_def sim_Parse_http)
  have n: "\<not> HasSuffix ''http://h'' ''/''" by (simp add: HasSuffix_def)
  show ?thesis
    using SetURL_trailing_separator [of "''http://h''" "''http://h''" simlib _ "newClient simlib" world0, OF _ p] n
    by auto
qed

section \<open>Status codes\<close>

lemma handleError_ok:
  "200 \<le> StatusCode resp \<Longrightarrow> StatusCode resp < 300 \<Longrightarrow> handleError L cl resp w = (None, w)"
  by (simp add: handleError_def)

lemma handleError_bad:
  "StatusCode resp < 200 \<or> 300 \<le> StatusCode resp \<Longrightarrow>
   handleError L cl resp w =
     (Some (Err \<lparr>ID = ''http_error'', Details = status_msg L (StatusCode resp)\<rparr>),
      errorf cl (Line (status_msg L (StatusCode resp))) (dump_to_errorlog L cl resp w))"
  by (auto simp: handleError_def Let_def)

lemma do_bad_status:
  assumes "build_request L cl method (with_params rawurl params) body bodyLength = Inr req"
    and "round_trip cl L (with_params rawurl params) req w = (Inr resp, w3)"
    and "StatusCode resp < 200 \<or> 300 \<le> StatusCode resp"
  shows "do L dec cl method rawurl params body bodyLength result w =
           (Some (Err \<lparr>ID = ''http_error'', Details = status_msg L (StatusCode resp)\<rparr>), result,
            snd (handleError L cl resp w3))"
  using assms by (simp add: do_def Let_def handleError_bad)

lemma do_good_status:
  assumes "build_request L cl method (with_params rawurl params) body bodyLength = Inr req"
    and "round_trip cl L (with_params rawurl params) req w = (Inr resp, w3)"
    and "200 \<le> StatusCode resp" "StatusCode resp < 300"
  shows "do L dec cl method rawurl params body bodyLength result w =
           receive L dec cl result (dumpResponse L cl resp w3)"
  using assms by (simp add: do_def Let_def handleError_ok)

lemma Itoa_299: "Itoa 299 = ''299''"
  by code_simp

lemma Itoa_404: "Itoa 404 = ''404''"
  by code_simp


lemma sent_Printf: "sent (Printf l e w) = sent w"
  by (simp add: Printf_def)

lemma sent_errorf: "sent (errorf cl e w) = sent w"
  by (simp add: errorf_def sent_Printf split: option.splits)

lemma sent_tracef: "sent (tracef cl e w) = sent w"
  by (simp add: tracef_def sent_Printf split: option.splits)

lemma sent_dump_to_errorlog: "sent (dump_to_errorlog L cl resp w) = sent w"
  by (simp add: dump_to_errorlog_def sent_errorf split: option.splits sum.splits)

lemma sent_handleError: "sent (snd (handleError L cl resp w)) = sent w"
  by (simp add: handleError_def Let_def sent_errorf sent_dump_to_errorlog)

lemma handleError_no_errorlog: "errorlog cl = None \<Longrightarrow> snd (handleError L cl resp w) = w"
  by (simp add: handleError_def Let_def errorf_def dump_to_errorlog_def)





text \<open>
  Claim C3, as amended. \<open>handleError\<close> returns an error exactly when the status code is
  below 200 or at least 300, that is, outside the interval from 200 to 299 with both ends
  in it; the error has the id \<open>http_error\<close>, and its details hold the code in decimal and
  the reason phrase of the code. When a response arrives, \<open>do\<close> returns this error for
  such a code and leaves the result untouched; for a code from 200 to 299 it goes on to
  read the response and classifies nothing as an error itself.
\<close>

theorem http_error_status:
  "fst (handleError L cl resp w) =
     (if StatusCode resp < 200 \<or> 300 \<le> StatusCode resp
      then Some (Err \<lparr>ID = ''http_error'',
                     Details = ''Unexpected status code: '' @ Itoa (StatusCode resp) @ '' (''
                                 @ StatusText L (StatusCode resp) @ '')''\<rparr>)
      else None)
   \<and> (build_request L cl method (with_params rawurl params) body bodyLength = Inr req
        \<and> round_trip cl L (with_params rawurl params) req w = (Inr resp, w3)
      \<longrightarrow> do L dec cl method rawurl params body bodyLength result w =
            (if StatusCode resp < 200 \<or> 300 \<le> StatusCode resp
             then (Some (Err \<lparr>ID = ''http_error'',
                              Details = ''Unexpected status code: '' @ Itoa (StatusCode resp) @ '' (''
                                 @ StatusText L (StatusCode resp) @ '')''\<rparr>),
                   result, snd (handleError L cl resp w3))
             else receive L dec cl result (dumpResponse L cl resp w3)))"
proof (intro conjI impI)
  show "fst (handleError L cl resp w) =
     (if StatusCode resp < 200 \<or> 300 \<le> StatusCode resp
      then Some (Err \<lparr>ID = ''http_error'',
                     Details = ''Unexpected status code: '' @ Itoa (StatusCode resp) @ '' (''
                                 @ StatusText L (StatusCode resp) @ '')''\<rparr>)
      else None)"
    by (simp add: handleError_def Let_def status_msg_def)
next
  assume a: "build_request L cl method (with_params rawurl params) body bodyLength = Inr req
        \<and> round_trip cl L (with_params rawurl params) req w = (Inr resp, w3)"
  show "do L dec cl method rawurl params body bodyLength result w =
            (if StatusCode resp < 200 \<or> 300 \<le> StatusCode resp
             then (Some (Err \<lparr>ID = ''http_error'',
                              Details = ''Unexpected status code: '' @ Itoa (StatusCode resp) @ '' (''
                                 @ StatusText L (StatusCode resp) @ '')''\<rparr>),
                   result, snd (handleError L cl resp w3))
             else receive L dec cl result (dumpResponse L cl resp w3))"
  proof (cases "StatusCode resp < 200 \<or> 300 \<le> StatusCode resp")
    case True
    then show ?thesis using a do_bad_status [of L cl "method" rawurl params body bodyLength req w resp w3]
      by (simp add: status_msg_def)
  next
    case False
    then show ?thesis using a do_good_status [of L cl "method" rawurl params body bodyLength req w resp w3]
      by simp
  qed
qed

text \<open>
  The claim as it stands fails at 299: the code lies outside the half-open interval from
  200 to 299, and the executor returns no error.
\<close>

theorem http_error_299_counterexample:
  "(299 :: int) \<notin> {200 ..< 299}
   \<and> fst (handleError simlib sim_client status_299 world0) = None
   \<and> fst (do simlib sim_Decode (sim_client\<lparr>httpc := \<lambda>req. Inr status_299\<rparr>) ''GET'' ''q'' [] None 0
            (Value (Map.empty :: string \<rightharpoonup> nat)) world0) = None"
  by (simp add: handleError_def status_299_def do_def build_request_def http_NewRequest_def
      with_params_def simlib_def sim_client_def DefaultURL_def sim_Parse_def ToLower_def
      isTokenChar_def isAlnum_def Header_Set_def Let_def round_trip_def receive_def
      dumpResponse_def sim_Decode_def)

theorem http_error_status_witness:
  "fst (handleError simlib (sim_client\<lparr>httpc := \<lambda>req. Inr not_found\<rparr>) not_found world0)
     = Some (Err \<lparr>ID = ''http_error'', Details = ''Unexpected status code: 404 (Not Found)''\<rparr>)
   \<and> fst (do simlib sim_Decode (sim_client\<lparr>httpc := \<lambda>req. Inr not_found\<rparr>) ''GET'' ''q'' [] None 0
            (Value (Map.empty :: string \<rightharpoonup> nat)) world0)
     = Some (Err \<lparr>ID = ''http_error'', Details = ''Unexpected status code: 404 (Not Found)''\<rparr>)"
proof -
  let ?cl = "sim_client\<lparr>httpc := \<lambda>req. Inr not_found\<rparr>"
  let ?req = "\<lparr>Method = ''GET'', URL = ''https://api.cylance.com/apiv2/q'',
               Header = [''Accept'' \<mapsto> ''application/json'', AuthHeader \<mapsto> ''secret''],
               ReqBody = None, ContentLength = 0\<rparr>"
  have b: "build_request simlib ?cl ''GET'' (with_params ''q'' []) None 0 = Inr ?req"
    by (simp add: build_request_def http_NewRequest_def with_params_def simlib_def sim_client_def
        DefaultURL_def sim_Parse_def ToLower_def isTokenChar_def isAlnum_def Header_Set_def Let_def)
  have r: "round_trip ?cl simlib (with_params ''q'' []) ?req world0
             = (Inr not_found, world0\<lparr>sent := [?req]\<rparr>)"
    by (simp add: round_trip_def sim_client_def world0_def)
  have s: "StatusCode not_found = 404" by (simp add: not_found_def)
  have t: "StatusText simlib 404 = ''Not Found''" by (simp add: simlib_def sim_StatusText_def)
  show ?thesis
    using http_error_status [of simlib ?cl not_found world0 "''GET''" "''q''" "[]" None 0 ?req
        "world0\<lparr>sent := [?req]\<rparr>" sim_Decode "Value (Map.empty :: string \<rightharpoonup> nat)"] b r s t
    by (simp add: Itoa_404)
qed




section \<open>Validation of the arguments\<close>

text \<open>
  Claim C8, as amended. \<open>Query\<close> with no hash, \<open>Upload\<close> with an empty confirmation code,
  and \<open>Upload\<close> with a nil data stream return a nil map and an error with id \<open>missing_arg\<close>,
  and the world is as it was: no request was handed to a client, and nothing was logged.
  \<open>UploadFile\<close> opens the file before it calls \<open>Upload\<close>: with an empty confirmation code
  it returns the same \<open>missing_arg\<close> when the file opens, and the error of \<open>os.Open\<close>, as it
  is, when the file does not open; in both cases the map is nil and no request is sent.
\<close>

theorem validation_before_network:
  "Query L dec cl classifiers [] w
     = (None, Some (Err \<lparr>ID = ''missing_arg'', Details = ''hash is required''\<rparr>), w)
   \<and> Upload L dec' cl [] data w
     = (None, Some (Err \<lparr>ID = ''missing_arg'', Details = ''Confirmation code is required''\<rparr>), w, None)
   \<and> (confirmCode \<noteq> [] \<longrightarrow>
        Upload L dec' cl confirmCode None w
          = (None, Some (Err \<lparr>ID = ''missing_arg'', Details = ''Data is required''\<rparr>), w, None))
   \<and> (os_Open L path = Inr f \<longrightarrow>
        UploadFile L dec' cl [] path w
          = (None, Some (Err \<lparr>ID = ''missing_arg'', Details = ''Confirmation code is required''\<rparr>), w, None))
   \<and> (os_Open L path = Inl err \<longrightarrow>
        UploadFile L dec' cl confirmCode path w = (None, Some err, w, None))
   \<and> sent (fst (snd (snd (UploadFile L dec' cl [] path w)))) = sent w"
  by (auto simp: Query_def Upload_def UploadFile_def split: sum.splits)

text \<open>
  The claim as it stands fails for \<open>UploadFile\<close>: with an empty confirmation code and a
  path that does not open, the error returned is the one of \<open>os.Open\<close>, not \<open>missing_arg\<close>.
\<close>

theorem UploadFile_open_error_counterexample:
  "UploadFile simlib (sim_Decode :: (string \<rightharpoonup> nat) decoder) sim_client [] ''/tmp/nope.bin'' world0
     = (None, Some (Foreign ''open /tmp/nope.bin: no such file or directory''), world0, None)
   \<and> fst (snd (UploadFile simlib (sim_Decode :: (string \<rightharpoonup> nat) decoder) sim_client []
                  ''/tmp/nope.bin'' world0))
       \<noteq> Some (Err \<lparr>ID = ''missing_arg'', Details = ''Confirmation code is required''\<rparr>)"
  by (simp add: UploadFile_def simlib_def sim_Open_def)

theorem validation_before_network_witness:
  "Upload simlib (sim_Decode :: (string \<rightharpoonup> nat) decoder) sim_client ''CODE1'' None world0
          = (None, Some (Err \<lparr>ID = ''missing_arg'', Details = ''Data is required''\<rparr>), world0, None)
   \<and> UploadFile simlib (sim_Decode :: (string \<rightharpoonup> nat) decoder) sim_client [] ''/tmp/sample.bin'' world0
          = (None, Some (Err \<lparr>ID = ''missing_arg'', Details = ''Confirmation code is required''\<rparr>), world0, None)
   \<and> UploadFile simlib (sim_Decode :: (string \<rightharpoonup> nat) decoder) sim_client ''CODE1'' ''/tmp/nope.bin'' world0
          = (None, Some (Foreign ''open /tmp/nope.bin: no such file or directory''), world0, None)
   \<and> sent world0 = []"
proof -
  let ?dec = "sim_Decode :: (string \<rightharpoonup> nat) decoder"
  have o: "os_Open simlib ''/tmp/sample.bin'' = Inr (Reader [''hello''] None)"
    by (simp add: simlib_def sim_Open_def)
  have n: "os_Open simlib ''/tmp/nope.bin''
             = Inl (Foreign ''open /tmp/nope.bin: no such file or directory'')"
    by (simp add: simlib_def sim_Open_def)
  note t = validation_before_network [where L = simlib and dec' = ?dec and dec = ?dec
        and cl = sim_client and confirmCode = "''CODE1''" and w = world0 and path = "''/tmp/sample.bin''"
        and f = "Reader [''hello''] None" and data = None and classifiers = "[]"]
  note t' = validation_before_network [where L = simlib and dec' = ?dec and dec = ?dec
        and cl = sim_client and confirmCode = "''CODE1''" and w = world0 and path = "''/tmp/nope.bin''"
        and err = "Foreign ''open /tmp/nope.bin: no such file or directory''" and data = None
        and classifiers = "[]"]
  have a: "Upload simlib ?dec sim_client ''CODE1'' None world0
          = (None, Some (Err \<lparr>ID = ''missing_arg'', Details = ''Data is required''\<rparr>), world0, None)"
    using t [THEN conjunct2, THEN conjunct2, THEN conjunct1] by simp
  have b: "UploadFile simlib ?dec sim_client [] ''/tmp/sample.bin'' world0
          = (None, Some (Err \<lparr>ID = ''missing_arg'', Details = ''Confirmation code is required''\<rparr>), world0, None)"
    using t [THEN conjunct2, THEN conjunct2, THEN conjunct2, THEN conjunct1] o by simp
  have c: "UploadFile simlib ?dec sim_client ''CODE1'' ''/tmp/nope.bin'' world0
          = (None, Some (Foreign ''open /tmp/nope.bin: no such file or directory''), world0, None)"
    using t' [THEN conjunct2, THEN conjunct2, THEN conjunct2, THEN conjunct2, THEN conjunct1] n by simp
  show ?thesis using a b c by (simp add: world0_def)
qed

section \<open>The request of a query\<close>

lemma sent_dumpRequest: "sent (dumpRequest L cl req w) = sent w"
  by (simp add: dumpRequest_def sent_tracef split: option.splits sum.splits)

lemma sent_dumpResponse: "sent (snd (dumpResponse L cl resp w)) = sent w"
  by (simp add: dumpResponse_def sent_tracef split: option.splits sum.splits prod.splits)

lemma sent_receive: "sent (snd (snd (receive L dec cl result rw))) = sent (snd rw)"
  by (simp add: receive_def sent_dump_to_errorlog split: prod.splits result.splits option.splits)

lemma sent_round_trip: "sent (snd (round_trip cl L rawurl req w)) = sent w @ [req]"
  by (simp add: round_trip_def Let_def sent_tracef sent_dumpRequest split: option.splits)

lemma do_sent:
  "sent (snd (snd (do L dec cl meth rawurl params body bodyLength result w))) =
     (case build_request L cl meth (with_params rawurl params) body bodyLength of
        Inl err \<Rightarrow> sent w
      | Inr req \<Rightarrow> sent w @ [req])"
proof (cases "build_request L cl meth (with_params rawurl params) body bodyLength")
  case (Inl err)
  then show ?thesis by (simp add: do_def)
next
  case (Inr req)
  obtain r w3 where rt: "round_trip cl L (with_params rawurl params) req w = (r, w3)"
    by (cases "round_trip cl L (with_params rawurl params) req w")
  have s3: "sent w3 = sent w @ [req]"
    using sent_round_trip [of cl L "with_params rawurl params" req w] rt by simp
  show ?thesis
  proof (cases r)
    case (Inl err)
    then show ?thesis using Inr rt s3 by (simp add: do_def)
  next
    case (Inr resp)
    obtain e w4 where h: "handleError L cl resp w3 = (e, w4)"
      by (cases "handleError L cl resp w3")
    have s4: "sent w4 = sent w3" using sent_handleError [of L cl resp w3] h by simp
    show ?thesis
    proof (cases e)
      case None
      then show ?thesis
        using \<open>build_request L cl meth (with_params rawurl params) body bodyLength = Inr req\<close> rt Inr h s3 s4
        by (simp add: do_def sent_receive sent_dumpResponse)
    next
      case (Some err)
      then show ?thesis
        using \<open>build_request L cl meth (with_params rawurl params) body bodyLength = Inr req\<close> rt Inr h s3 s4
        by (simp add: do_def)
    qed
  qed
qed

lemma QueryEscape_c: "QueryEscape ''c'' = ''c''" and QueryEscape_h: "QueryEscape ''h'' = ''h''"
  by (simp_all add: QueryEscape_def escape_byte_def isAlnum_def)

lemma Query_with_params:
  "with_params ''q'' [(''c'', cls), (''h'', hs)] = ''q?c='' @ QueryEscape cls @ ''&h='' @ QueryEscape hs"
  by (simp add: with_params_def Values_Encode_def QueryEscape_c QueryEscape_h)

lemma build_request_GET:
  "build_request L cl ''GET'' rawurl None 0 =
     (case url_Parse L (url cl @ rawurl) of
        Inl err \<Rightarrow> Inl err
      | Inr u \<Rightarrow> Inr \<lparr>Method = ''GET'', URL = url cl @ rawurl,
                     Header = [''Accept'' \<mapsto> ''application/json'', AuthHeader \<mapsto> key cl],
                     ReqBody = None, ContentLength = 0\<rparr>)"
  by (simp add: build_request_def http_NewRequest_def isTokenChar_def isAlnum_def Header_Set_def
      Let_def split: sum.splits)

text \<open>
  Claim C9. With at least one hash, \<open>Query\<close> calls \<open>do\<close> with the method GET, the path
  \<open>q\<close> and the two parameters \<open>c\<close> (the classifiers, or \<open>all\<close> when the argument is empty)
  and \<open>h\<close> (the hashes joined with commas). The query string is \<open>c=...&h=...\<close> with both
  values escaped, and the one request handed to the client is a GET of the base URL
  followed by \<open>q?\<close> and this query string, without a body. (No request is sent when
  the URL so built does not parse.)
\<close>

theorem Query_request:
  assumes "hash \<noteq> []"
    and "cls = (if classifiers = [] then ''all'' else classifiers)"
    and "qs = ''q?c='' @ QueryEscape cls @ ''&h='' @ QueryEscape (Join hash '','')"
  shows "Query L dec cl classifiers hash w =
           (case do L dec cl ''GET'' ''q'' [(''c'', cls), (''h'', Join hash '','')] None 0 (Value Map.empty) w of
              (err, res, w') \<Rightarrow> (Some (pointee Map.empty res), err, w'))
         \<and> with_params ''q'' [(''c'', cls), (''h'', Join hash '','')] = qs
         \<and> sent (snd (snd (Query L dec cl classifiers hash w))) =
             (case url_Parse L (url cl @ qs) of
                Inl err \<Rightarrow> sent w
              | Inr u \<Rightarrow>
                  sent w @ [\<lparr>Method = ''GET'', URL = url cl @ qs,
                             Header = [''Accept'' \<mapsto> ''application/json'', AuthHeader \<mapsto> key cl],
                             ReqBody = None, ContentLength = 0\<rparr>])"
proof (intro conjI)
  show q: "Query L dec cl classifiers hash w =
           (case do L dec cl ''GET'' ''q'' [(''c'', cls), (''h'', Join hash '','')] None 0 (Value Map.empty) w of
              (err, res, w') \<Rightarrow> (Some (pointee Map.empty res), err, w'))"
    using assms by (simp add: Query_def)
  show p: "with_params ''q'' [(''c'', cls), (''h'', Join hash '','')] = qs"
    using assms by (simp add: Query_with_params)
  have "sent (snd (snd (Query L dec cl classifiers hash w))) =
        sent (snd (snd (do L dec cl ''GET'' ''q'' [(''c'', cls), (''h'', Join hash '','')] None 0
                         (Value (Map.empty :: string \<rightharpoonup> 'a)) w)))"
    by (simp add: q split: prod.splits)
  then show "sent (snd (snd (Query L dec cl classifiers hash w))) =
             (case url_Parse L (url cl @ qs) of
                Inl err \<Rightarrow> sent w
              | Inr u \<Rightarrow>
                  sent w @ [\<lparr>Method = ''GET'', URL = url cl @ qs,
                             Header = [''Accept'' \<mapsto> ''application/json'', AuthHeader \<mapsto> key cl],
                             ReqBody = None, ContentLength = 0\<rparr>])"
    by (simp add: do_sent p build_request_GET split: sum.splits)
qed

lemma QueryEscape_hashes: "QueryEscape ''abc123,ff'' = ''abc123%2Cff''"
  by (simp add: QueryEscape_def escape_byte_def isAlnum_def upperhex_def)

lemma QueryEscape_all: "QueryEscape ''all'' = ''all''"
  by (simp add: QueryEscape_def escape_byte_def isAlnum_def)

theorem Query_request_witness:
  "sent (snd (snd (Query simlib (sim_Decode :: (string \<rightharpoonup> nat) decoder) sim_client [] [''abc123'', ''ff''] world0)))
     = [\<lparr>Method = ''GET'', URL = ''https://api.cylance.com/apiv2/q?c=all&h=abc123%2Cff'',
         Header = [''Accept'' \<mapsto> ''application/json'', ''X-IAUTH'' \<mapsto> ''secret''],
         ReqBody = None, ContentLength = 0\<rparr>]"
proof -
  have p: "url_Parse simlib ''https://api.cylance.com/apiv2/q?c=all&h=abc123%2Cff''
             = Inr \<lparr>Scheme = ''https'', Opaque = ''//api.cylance.com/apiv2/q?c=all&h=abc123%2Cff''\<rparr>"
    by (simp add: simlib_def sim_Parse_def ToLower_def)
  show ?thesis
    using Query_request [where hash = "[''abc123'', ''ff'']" and classifiers = "[]" and cls = "''all''"
        and qs = "''q?c=all&h=abc123%2Cff''" and L = simlib and cl = sim_client and w = world0
        and dec = "sim_Decode :: (string \<rightharpoonup> nat) decoder", THEN conjunct2, THEN conjunct2] p
    by (simp add: QueryEscape_hashes QueryEscape_all sim_client_def DefaultURL_def world0_def AuthHeader_def)
qed

section \<open>The result map of a failed operation\<close>

lemma do_transport_failure:
  assumes "build_request L cl meth (with_params rawurl params) body bodyLength = Inr req"
    and "round_trip cl L (with_params rawurl params) req w = (Inl err, w3)"
  shows "do L dec cl meth rawurl params body bodyLength result w = (Some err, result, w3)"
  using assms by (simp add: do_def)

lemma do_decode_failure:
  assumes "build_request L cl meth (with_params rawurl params) body bodyLength = Inr req"
    and "round_trip cl L (with_params rawurl params) req w = (Inr resp, w3)"
    and "200 \<le> StatusCode resp" "StatusCode resp < 300"
    and "dumpResponse L cl resp w3 = (resp1, w5)"
    and "dec (Body resp1) v = (Some err, v', rest)"
  shows "do L dec cl meth rawurl params body bodyLength (Value v) w =
           (Some err, Value v', dump_to_errorlog L cl (resp1\<lparr>Body := rest\<rparr>) w5)"
  using assms by (simp add: do_good_status receive_def)

lemma Query_do:
  "hash \<noteq> [] \<Longrightarrow>
   do L dec cl ''GET'' ''q''
      [(''c'', if classifiers = [] then ''all'' else classifiers), (''h'', Join hash '','')]
      None 0 (Value Map.empty) w = (err, res, w') \<Longrightarrow>
   Query L dec cl classifiers hash w = (Some (pointee Map.empty res), err, w')"
  by (simp add: Query_def)

lemma Upload_do:
  "confirmCode \<noteq> [] \<Longrightarrow> io_Copy L (gzip_NewWriter []) rd = (gw, None) \<Longrightarrow>
   do L dec cl ''PUT'' (''u/'' @ confirmCode) [] (Some (gz_w gw)) (int (length (gz_w gw)))
      (Value Map.empty) w = (err, res, w') \<Longrightarrow>
   Upload L dec cl confirmCode (Some rd) w = (Some (pointee Map.empty res), err, w', Some (gz_Close L gw))"
  by (simp add: Upload_def)

lemma io_Copy_rerr: "snd (io_Copy L gw rd) = rerr rd"
  by (simp add: io_Copy_def)

lemma round_trip_untraced:
  "tracelog cl = None \<Longrightarrow> round_trip cl L rawurl req w = (httpc cl req, w\<lparr>sent := sent w @ [req]\<rparr>)"
  by (simp add: round_trip_def)

lemma sim_build_query_ab:
  "key cl = ''secret'' \<Longrightarrow> url cl = DefaultURL \<Longrightarrow>
   build_request simlib cl ''GET'' ''q?c=all&h=ab'' None 0 = Inr query_ab"
  by (simp add: build_request_GET DefaultURL_def simlib_def sim_Parse_def ToLower_def query_ab_def)

lemma with_params_ab:
  "with_params ''q'' [(''c'', if ([] :: string) = [] then ''all'' else []), (''h'', Join [''ab''] '','')]
     = ''q?c=all&h=ab''"
  by (simp add: Query_with_params QueryEscape_def escape_byte_def isAlnum_def)

text \<open>
  Claim C10. Past the validation of its arguments (and, for \<open>Upload\<close>, once the data stream
  has been read to its end), an operation returns a map that is not nil, whatever \<open>do\<close>
  returns: the map behind the pointer given to \<open>do\<close>, with the error of \<open>do\<close>. When the
  transport fails, and when the status code is outside 200..299, \<open>do\<close> returns the error
  and leaves the map as it was, empty; when the decoder fails, \<open>do\<close> returns its error and
  the map as the decoder left it. A \<open>missing_arg\<close> failure returns the nil map.
\<close>

theorem failure_result_map:
  "(hash \<noteq> [] \<longrightarrow> fst (Query L dec cl classifiers hash w) \<noteq> None)
   \<and> (confirmCode \<noteq> [] \<and> rerr rd = None \<longrightarrow> fst (Upload L dec' cl confirmCode (Some rd) w) \<noteq> None)
   \<and> (hash \<noteq> []
        \<and> do L dec cl ''GET'' ''q''
             [(''c'', if classifiers = [] then ''all'' else classifiers), (''h'', Join hash '','')]
             None 0 (Value Map.empty) w = (err, res, w')
      \<longrightarrow> Query L dec cl classifiers hash w = (Some (pointee Map.empty res), err, w'))
   \<and> (confirmCode \<noteq> [] \<and> io_Copy L (gzip_NewWriter []) rd = (gw, None)
        \<and> do L dec' cl ''PUT'' (''u/'' @ confirmCode) [] (Some (gz_w gw)) (int (length (gz_w gw)))
             (Value Map.empty) w = (err, res', w')
      \<longrightarrow> Upload L dec' cl confirmCode (Some rd) w
            = (Some (pointee Map.empty res'), err, w', Some (gz_Close L gw)))
   \<and> (build_request L cl meth (with_params rawurl params) body bodyLength = Inr req
        \<and> round_trip cl L (with_params rawurl params) req w = (Inl e, wr)
      \<longrightarrow> do L dec cl meth rawurl params body bodyLength (Value v) w = (Some e, Value v, wr))
   \<and> (build_request L cl meth (with_params rawurl params) body bodyLength = Inr req
        \<and> round_trip cl L (with_params rawurl params) req w = (Inr resp, wr)
        \<and> (StatusCode resp < 200 \<or> 300 \<le> StatusCode resp)
      \<longrightarrow> do L dec cl meth rawurl params body bodyLength (Value v) w
            = (Some (Err \<lparr>ID = ''http_error'', Details = status_msg L (StatusCode resp)\<rparr>), Value v,
               snd (handleError L cl resp wr)))
   \<and> (build_request L cl meth (with_params rawurl params) body bodyLength = Inr req
        \<and> round_trip cl L (with_params rawurl params) req w = (Inr resp, wr)
        \<and> 200 \<le> StatusCode resp \<and> StatusCode resp < 300
        \<and> dumpResponse L cl resp wr = (respd, wd)
        \<and> dec (Body respd) v = (Some e, v', rest)
      \<longrightarrow> do L dec cl meth rawurl params body bodyLength (Value v) w
            = (Some e, Value v', dump_to_errorlog L cl (respd\<lparr>Body := rest\<rparr>) wd))
   \<and> fst (Query L dec cl classifiers [] w) = None
   \<and> fst (Upload L dec' cl [] data w) = None
   \<and> fst (Upload L dec' cl confirmCode None w) = None"
proof (intro conjI impI)
  assume "hash \<noteq> []"
  then show "fst (Query L dec cl classifiers hash w) \<noteq> None"
    by (simp add: Query_def split: prod.splits)
next
  assume a: "confirmCode \<noteq> [] \<and> rerr rd = None"
  obtain gw where "io_Copy L (gzip_NewWriter []) rd = (gw, None)"
    using io_Copy_rerr [of L "gzip_NewWriter []" rd] a
    by (cases "io_Copy L (gzip_NewWriter []) rd") simp
  then show "fst (Upload L dec' cl confirmCode (Some rd) w) \<noteq> None"
    using a by (simp add: Upload_def split: prod.splits)
next
  assume "hash \<noteq> []
        \<and> do L dec cl ''GET'' ''q''
             [(''c'', if classifiers = [] then ''all'' else classifiers), (''h'', Join hash '','')]
             None 0 (Value Map.empty) w = (err, res, w')"
  then show "Query L dec cl classifiers hash w = (Some (pointee Map.empty res), err, w')"
    by (simp add: Query_do)
next
  assume "confirmCode \<noteq> [] \<and> io_Copy L (gzip_NewWriter []) rd = (gw, None)
        \<and> do L dec' cl ''PUT'' (''u/'' @ confirmCode) [] (Some (gz_w gw)) (int (length (gz_w gw)))
             (Value Map.empty) w = (err, res', w')"
  then show "Upload L dec' cl confirmCode (Some rd) w
            = (Some (pointee Map.empty res'), err, w', Some (gz_Close L gw))"
    by (simp add: Upload_do)
next
  assume "build_request L cl meth (with_params rawurl params) body bodyLength = Inr req
        \<and> round_trip cl L (with_params rawurl params) req w = (Inl e, wr)"
  then show "do L dec cl meth rawurl params body bodyLength (Value v) w = (Some e, Value v, wr)"
    by (simp add: do_transport_failure)
next
  assume "build_request L cl meth (with_params rawurl params) body bodyLength = Inr req
        \<and> round_trip cl L (with_params rawurl params) req w = (Inr resp, wr)
        \<and> (StatusCode resp < 200 \<or> 300 \<le> StatusCode resp)"
  then show "do L dec cl meth rawurl params body bodyLength (Value v) w
            = (Some (Err \<lparr>ID = ''http_error'', Details = status_msg L (StatusCode resp)\<rparr>), Value v,
               snd (handleError L cl resp wr))"
    using do_bad_status [of L cl meth rawurl params body bodyLength req w resp wr dec "Value v"] by simp
next
  assume "build_request L cl meth (with_params rawurl params) body bodyLength = Inr req
        \<and> round_trip cl L (with_params rawurl params) req w = (Inr resp, wr)
        \<and> 200 \<le> StatusCode resp \<and> StatusCode resp < 300
        \<and> dumpResponse L cl resp wr = (respd, wd)
        \<and> dec (Body respd) v = (Some e, v', rest)"
  then show "do L dec cl meth rawurl params body bodyLength (Value v) w
            = (Some e, Value v', dump_to_errorlog L cl (respd\<lparr>Body := rest\<rparr>) wd)"
    using do_decode_failure [of L cl meth rawurl params body bodyLength req w resp wr respd wd dec v e v' rest]
    by simp
next
  show "fst (Query L dec cl classifiers [] w) = None" by (simp add: Query_def)
  show "fst (Upload L dec' cl [] data w) = None" by (simp add: Upload_def)
  show "fst (Upload L dec' cl confirmCode None w) = None" by (simp add: Upload_def)
qed

theorem failure_result_map_witness:
  "Query simlib (sim_Decode :: (string \<rightharpoonup> nat) decoder) (sim_client\<lparr>httpc := \<lambda>req. Inl (Foreign ''dial tcp: connection refused'')\<rparr>) [] [''ab''] world0
     = (Some Map.empty, Some (Foreign ''dial tcp: connection refused''), world0\<lparr>sent := [query_ab]\<rparr>)
   \<and> Query simlib (sim_Decode :: (string \<rightharpoonup> nat) decoder) (sim_client\<lparr>httpc := \<lambda>req. Inr not_found\<rparr>) [] [''ab''] world0
     = (Some Map.empty, Some (Err \<lparr>ID = ''http_error'', Details = ''Unexpected status code: 404 (Not Found)''\<rparr>),
        world0\<lparr>sent := [query_ab]\<rparr>)
   \<and> Query simlib (sim_Decode :: (string \<rightharpoonup> nat) decoder) (sim_client\<lparr>httpc := \<lambda>req. Inr garbled\<rparr>) [] [''ab''] world0
     = (Some Map.empty, Some (Foreign ''invalid character looking for beginning of value''),
        world0\<lparr>sent := [query_ab]\<rparr>)
   \<and> fst (Upload simlib (sim_Decode :: (string \<rightharpoonup> nat) decoder) sim_client ''CODE1'' (Some (Reader [''hello''] None)) world0) \<noteq> None"
proof -
  let ?dec = "sim_Decode :: (string \<rightharpoonup> nat) decoder"
  let ?P = "[(''c'', if ([] :: string) = [] then ''all'' else []), (''h'', Join [''ab''] '','')]"
  let ?w = "world0\<lparr>sent := [query_ab]\<rparr>"
  have w: "world0\<lparr>sent := sent world0 @ [query_ab]\<rparr> = ?w" by (simp add: world0_def)
  note p = with_params_ab
  \<comment> \<open>a refused connection\<close>
  let ?c1 = "sim_client\<lparr>httpc := \<lambda>req. Inl (Foreign ''dial tcp: connection refused'')\<rparr>"
  have b1: "build_request simlib ?c1 ''GET'' (with_params ''q'' ?P) None 0 = Inr query_ab"
    unfolding p by (rule sim_build_query_ab) (simp_all add: sim_client_def)
  have r1: "round_trip ?c1 simlib (with_params ''q'' ?P) query_ab world0
              = (Inl (Foreign ''dial tcp: connection refused''), ?w)"
    using round_trip_untraced [of ?c1 simlib _ query_ab world0] w by (simp add: sim_client_def)
  note t1 = failure_result_map [where L = simlib and dec = ?dec and cl = ?c1 and w = world0
      and meth = "''GET''" and rawurl = "''q''" and params = ?P and body = None and bodyLength = 0
      and req = query_ab and e = "Foreign ''dial tcp: connection refused''" and wr = ?w
      and v = Map.empty and hash = "[''ab'']" and classifiers = "[]"
      and err = "Some (Foreign ''dial tcp: connection refused'')" and res = "Value Map.empty"
      and w' = ?w]
  have d1: "do simlib ?dec ?c1 ''GET'' ''q'' ?P None 0 (Value Map.empty) world0
              = (Some (Foreign ''dial tcp: connection refused''), Value Map.empty, ?w)"
    using t1 [THEN conjunct2, THEN conjunct2, THEN conjunct2, THEN conjunct2, THEN conjunct1] b1 r1
    by simp
  have q1: "Query simlib ?dec ?c1 [] [''ab''] world0
              = (Some Map.empty, Some (Foreign ''dial tcp: connection refused''), ?w)"
    using t1 [THEN conjunct2, THEN conjunct2, THEN conjunct1] d1 by simp
  \<comment> \<open>a status outside 200..299\<close>
  let ?c2 = "sim_client\<lparr>httpc := \<lambda>req. Inr not_found\<rparr>"
  let ?e2 = "Err \<lparr>ID = ''http_error'', Details = ''Unexpected status code: 404 (Not Found)''\<rparr>"
  have b2: "build_request simlib ?c2 ''GET'' (with_params ''q'' ?P) None 0 = Inr query_ab"
    unfolding p by (rule sim_build_query_ab) (simp_all add: sim_client_def)
  have r2: "round_trip ?c2 simlib (with_params ''q'' ?P) query_ab world0 = (Inr not_found, ?w)"
    using round_trip_untraced [of ?c2 simlib _ query_ab world0] w by (simp add: sim_client_def)
  have s2: "StatusCode not_found < 200 \<or> 300 \<le> StatusCode not_found" by (simp add: not_found_def)
  have m2: "status_msg simlib (StatusCode not_found) = ''Unexpected status code: 404 (Not Found)''"
    by (simp add: status_msg_def not_found_def simlib_def sim_StatusText_def Itoa_404)
  have h2: "snd (handleError simlib ?c2 not_found ?w) = ?w"
    by (rule handleError_no_errorlog) (simp add: sim_client_def)
  note t2 = failure_result_map [where L = simlib and dec = ?dec and cl = ?c2 and w = world0
      and meth = "''GET''" and rawurl = "''q''" and params = ?P and body = None and bodyLength = 0
      and req = query_ab and resp = not_found and wr = ?w
      and v = Map.empty and hash = "[''ab'']" and classifiers = "[]"
      and err = "Some ?e2" and res = "Value Map.empty" and w' = ?w]
  have d2: "do simlib ?dec ?c2 ''GET'' ''q'' ?P None 0 (Value Map.empty) world0
              = (Some ?e2, Value Map.empty, ?w)"
    using t2 [THEN conjunct2, THEN conjunct2, THEN conjunct2, THEN conjunct2, THEN conjunct2,
              THEN conjunct1] b2 r2 s2 m2 h2
    by simp
  have q2: "Query simlib ?dec ?c2 [] [''ab''] world0 = (Some Map.empty, Some ?e2, ?w)"
    using t2 [THEN conjunct2, THEN conjunct2, THEN conjunct1] d2 by simp
  \<comment> \<open>a body that is not JSON\<close>
  let ?c3 = "sim_client\<lparr>httpc := \<lambda>req. Inr garbled\<rparr>"
  let ?e3 = "Foreign ''invalid character looking for beginning of value''"
  have b3: "build_request simlib ?c3 ''GET'' (with_params ''q'' ?P) None 0 = Inr query_ab"
    unfolding p by (rule sim_build_query_ab) (simp_all add: sim_client_def)
  have r3: "round_trip ?c3 simlib (with_params ''q'' ?P) query_ab world0 = (Inr garbled, ?w)"
    using round_trip_untraced [of ?c3 simlib _ query_ab world0] w by (simp add: sim_client_def)
  have s3: "200 \<le> StatusCode garbled \<and> StatusCode garbled < 300" by (simp add: garbled_def)
  have u3: "dumpResponse simlib ?c3 garbled ?w = (garbled, ?w)"
    by (simp add: dumpResponse_def sim_client_def)
  have g3: "?dec (Body garbled) Map.empty = (Some ?e3, Map.empty, Reader [] None)"
    by (simp add: sim_Decode_def garbled_def)
  have l3: "dump_to_errorlog simlib ?c3 (garbled\<lparr>Body := Reader [] None\<rparr>) ?w = ?w"
    by (simp add: dump_to_errorlog_def sim_client_def)
  note t3 = failure_result_map [where L = simlib and dec = ?dec and cl = ?c3 and w = world0
      and meth = "''GET''" and rawurl = "''q''" and params = ?P and body = None and bodyLength = 0
      and req = query_ab and resp = garbled and wr = ?w and respd = garbled and wd = ?w
      and e = ?e3 and v' = Map.empty and rest = "Reader [] None"
      and v = Map.empty and hash = "[''ab'']" and classifiers = "[]"
      and err = "Some ?e3" and res = "Value Map.empty" and w' = ?w]
  have d3: "do simlib ?dec ?c3 ''GET'' ''q'' ?P None 0 (Value Map.empty) world0
              = (Some ?e3, Value Map.empty, ?w)"
    using t3 [THEN conjunct2, THEN conjunct2, THEN conjunct2, THEN conjunct2, THEN conjunct2,
              THEN conjunct2, THEN conjunct1] b3 r3 s3 u3 g3 l3
    by simp
  have q3: "Query simlib ?dec ?c3 [] [''ab''] world0 = (Some Map.empty, Some ?e3, ?w)"
    using t3 [THEN conjunct2, THEN conjunct2, THEN conjunct1] d3 by simp
  \<comment> \<open>an upload that passes validation\<close>
  have u: "fst (Upload simlib ?dec sim_client ''CODE1'' (Some (Reader [''hello''] None)) world0) \<noteq> None"
    using failure_result_map [where L = simlib and dec' = ?dec and cl = sim_client and w = world0
        and confirmCode = "''CODE1''" and rd = "Reader [''hello''] None", THEN conjunct2, THEN conjunct1]
    by simp
  show ?thesis using q1 q2 q3 u by simp
qed

section \<open>The body of an upload\<close>

lemma gz_Write_closed: "gz_closed (gz_Write L p z) = gz_closed z"
  by (simp add: gz_Write_def Let_def)

lemma foldl_gz_Write_closed:
  "gz_closed (foldl (\<lambda>z p. if p = [] then z else gz_Write L p z) gw cs) = gz_closed gw"
  by (induction cs arbitrary: gw) (simp_all add: gz_Write_closed)

lemma io_Copy_closed: "gz_closed (fst (io_Copy L (gzip_NewWriter buf) rd)) = False"
  by (simp add: io_Copy_def foldl_gz_Write_closed gzip_NewWriter_def)

lemma length_le32: "length (le32 x) = 4"
  by (simp add: le32_def)

lemma gz_Close_length:
  "\<not> gz_closed z \<Longrightarrow> length (gz_w z) + 8 \<le> length (gz_w (gz_Close L z))"
  by (simp add: gz_Close_def gz_Write_def Let_def length_le32)

lemma build_request_PUT:
  "build_request L cl ''PUT'' rawurl (Some b) n =
     (case url_Parse L (url cl @ rawurl) of
        Inl err \<Rightarrow> Inl err
      | Inr u \<Rightarrow> Inr \<lparr>Method = ''PUT'', URL = url cl @ rawurl,
                     Header = [''Accept'' \<mapsto> ''application/json'', AuthHeader \<mapsto> key cl,
                               ContentTypeHeader \<mapsto> GzipContentType, ContentLengthHeader \<mapsto> Itoa n],
                     ReqBody = Some b, ContentLength = int (length b)\<rparr>)"
  by (simp add: build_request_def http_NewRequest_def isTokenChar_def isAlnum_def Header_Set_def
      Let_def split: sum.splits)

lemma Upload_unfold:
  assumes "confirmCode \<noteq> []" and "rerr rd = None"
  shows "Upload L dec cl confirmCode (Some rd) w =
           (case do L dec cl ''PUT'' (''u/'' @ confirmCode) []
                   (Some (gz_w (fst (io_Copy L (gzip_NewWriter []) rd))))
                   (int (length (gz_w (fst (io_Copy L (gzip_NewWriter []) rd)))))
                   (Value Map.empty) w of
              (err, res, w') \<Rightarrow>
                (Some (pointee Map.empty res), err, w',
                 Some (gz_Close L (fst (io_Copy L (gzip_NewWriter []) rd)))))"
proof -
  obtain gw where g: "io_Copy L (gzip_NewWriter []) rd = (gw, None)"
    using io_Copy_rerr [of L "gzip_NewWriter []" rd] assms
    by (cases "io_Copy L (gzip_NewWriter []) rd") simp
  show ?thesis using assms g by (simp add: Upload_def)
qed

lemma Upload_sent:
  assumes "confirmCode \<noteq> []" and "rerr rd = None"
    and "url_Parse L (url cl @ ''u/'' @ confirmCode) = Inr u"
    and "gw = fst (io_Copy L (gzip_NewWriter []) rd)"
  shows "sent (fst (snd (snd (Upload L dec cl confirmCode (Some rd) w)))) =
           sent w @ [\<lparr>Method = ''PUT'', URL = url cl @ ''u/'' @ confirmCode,
                      Header = [''Accept'' \<mapsto> ''application/json'', AuthHeader \<mapsto> key cl,
                                ContentTypeHeader \<mapsto> GzipContentType,
                                ContentLengthHeader \<mapsto> Itoa (int (length (gz_w gw)))],
                      ReqBody = Some (gz_w gw), ContentLength = int (length (gz_w gw))\<rparr>]"
    and "snd (snd (snd (Upload L dec cl confirmCode (Some rd) w))) = Some (gz_Close L gw)"
proof -
  note u = Upload_unfold [OF assms(1,2), of L dec cl w]
  have "sent (fst (snd (snd (Upload L dec cl confirmCode (Some rd) w)))) =
        sent (snd (snd (do L dec cl ''PUT'' (''u/'' @ confirmCode) [] (Some (gz_w gw))
                          (int (length (gz_w gw))) (Value (Map.empty :: string \<rightharpoonup> 'a)) w)))"
    by (simp add: u assms(4) split: prod.splits)
  then show "sent (fst (snd (snd (Upload L dec cl confirmCode (Some rd) w)))) =
           sent w @ [\<lparr>Method = ''PUT'', URL = url cl @ ''u/'' @ confirmCode,
                      Header = [''Accept'' \<mapsto> ''application/json'', AuthHeader \<mapsto> key cl,
                                ContentTypeHeader \<mapsto> GzipContentType,
                                ContentLengthHeader \<mapsto> Itoa (int (length (gz_w gw)))],
                      ReqBody = Some (gz_w gw), ContentLength = int (length (gz_w gw))\<rparr>]"
    using assms(3) by (simp add: do_sent with_params_def build_request_PUT)
  show "snd (snd (snd (Upload L dec cl confirmCode (Some rd) w))) = Some (gz_Close L gw)"
    by (simp add: u assms(4) split: prod.splits)
qed

lemma Itoa_10: "Itoa 10 = ''10''"
  by code_simp

lemma sim_buffer_hello:
  "gz_w (fst (io_Copy simlib (gzip_NewWriter []) (Reader [''hello''] None))) = gz_header"
  by (simp add: io_Copy_def gz_Write_def gzip_NewWriter_def simlib_def Let_def)

lemma length_gz_header: "length gz_header = 10"
  by (simp add: gz_header_def)

lemma stored_blocks_hello: "stored_blocks ''hello'' = stored_block True ''hello''"
  by (simp add: stored_blocks.simps)

lemma sim_closed_buffer_hello:
  "gz_w (gz_Close simlib (fst (io_Copy simlib (gzip_NewWriter []) (Reader [''hello''] None))))
     = gz_header @ stored_block True ''hello'' @ le32 (crc32_Update 0 ''hello'') @ le32 5"
  by (simp add: io_Copy_def gz_Write_def gz_Close_def gzip_NewWriter_def simlib_def Let_def
      stored_blocks_hello)

text \<open>
  Claim C1 does not hold of the code, for any input. \<open>Upload\<close> defers \<open>gw.Close()\<close>, so the
  writer is closed when \<open>Upload\<close> returns, after \<open>do\<close> has read the length of the buffer
  and sent the request. For every upload that reaches the client, the one request sent
  carries as \<open>Content-Length\<close> the length of the buffer before the writer is closed, and
  that buffer as its body; the buffer of the closed writer is longer by eight bytes at
  least (the trailer, and what the deflater still held).
\<close>

theorem Upload_content_length_unfinished:
  assumes "confirmCode \<noteq> []" and "rerr rd = None"
    and "url_Parse L (url cl @ ''u/'' @ confirmCode) = Inr u"
    and "gw = fst (io_Copy L (gzip_NewWriter []) rd)"
  shows "sent (fst (snd (snd (Upload L dec cl confirmCode (Some rd) w)))) =
           sent w @ [\<lparr>Method = ''PUT'', URL = url cl @ ''u/'' @ confirmCode,
                      Header = [''Accept'' \<mapsto> ''application/json'', AuthHeader \<mapsto> key cl,
                                ContentTypeHeader \<mapsto> GzipContentType,
                                ContentLengthHeader \<mapsto> Itoa (int (length (gz_w gw)))],
                      ReqBody = Some (gz_w gw), ContentLength = int (length (gz_w gw))\<rparr>]
         \<and> snd (snd (snd (Upload L dec cl confirmCode (Some rd) w))) = Some (gz_Close L gw)
         \<and> length (gz_w gw) + 8 \<le> length (gz_w (gz_Close L gw))"
proof (intro conjI)
  show "sent (fst (snd (snd (Upload L dec cl confirmCode (Some rd) w)))) =
           sent w @ [\<lparr>Method = ''PUT'', URL = url cl @ ''u/'' @ confirmCode,
                      Header = [''Accept'' \<mapsto> ''application/json'', AuthHeader \<mapsto> key cl,
                                ContentTypeHeader \<mapsto> GzipContentType,
                                ContentLengthHeader \<mapsto> Itoa (int (length (gz_w gw)))],
                      ReqBody = Some (gz_w gw), ContentLength = int (length (gz_w gw))\<rparr>]"
    by (rule Upload_sent(1) [OF assms])
  show "snd (snd (snd (Upload L dec cl confirmCode (Some rd) w))) = Some (gz_Close L gw)"
    by (rule Upload_sent(2) [OF assms])
  show "length (gz_w gw) + 8 \<le> length (gz_w (gz_Close L gw))"
    unfolding assms(4) by (rule gz_Close_length) (simp add: io_Copy_closed)
qed

text \<open>
  On the simulated platform, uploading the five bytes \<open>hello\<close> sends \<open>Content-Length: 10\<close>
  with a body of ten bytes (the gzip header alone); the closed stream has 28 bytes.
\<close>

theorem Upload_content_length_hello:
  "map (\<lambda>r. (Header r ContentLengthHeader, map_option length (ReqBody r)))
       (sent (fst (snd (snd (Upload simlib (sim_Decode :: (string \<rightharpoonup> nat) decoder) sim_client ''CODE1''
                                (Some (Reader [''hello''] None)) world0)))))
     = [(Some ''10'', Some 10)]
   \<and> map_option (\<lambda>z. length (gz_w z))
        (snd (snd (snd (Upload simlib (sim_Decode :: (string \<rightharpoonup> nat) decoder) sim_client ''CODE1''
                                (Some (Reader [''hello''] None)) world0))))
     = Some 28"
proof -
  have p: "url_Parse simlib (url sim_client @ ''u/'' @ ''CODE1'')
             = Inr \<lparr>Scheme = ''https'', Opaque = ''//api.cylance.com/apiv2/u/CODE1''\<rparr>"
    by (simp add: simlib_def sim_Parse_def ToLower_def sim_client_def DefaultURL_def)
  note t = Upload_content_length_unfinished [where confirmCode = "''CODE1''"
      and rd = "Reader [''hello''] None" and L = simlib and cl = sim_client and w = world0
      and dec = "sim_Decode :: (string \<rightharpoonup> nat) decoder", OF _ _ p refl]
  have a: "map (\<lambda>r. (Header r ContentLengthHeader, map_option length (ReqBody r)))
       (sent (fst (snd (snd (Upload simlib (sim_Decode :: (string \<rightharpoonup> nat) decoder) sim_client ''CODE1''
                                (Some (Reader [''hello''] None)) world0)))))
     = [(Some ''10'', Some 10)]"
    using t [THEN conjunct1]
    by (simp add: sim_buffer_hello length_gz_header Itoa_10 world0_def)
  have b: "map_option (\<lambda>z. length (gz_w z))
        (snd (snd (snd (Upload simlib (sim_Decode :: (string \<rightharpoonup> nat) decoder) sim_client ''CODE1''
                                (Some (Reader [''hello''] None)) world0))))
     = Some 28"
    using t [THEN conjunct2, THEN conjunct1]
    by (simp add: sim_closed_buffer_hello length_gz_header length_le32 stored_block_def le16_def)
  show ?thesis using a b by simp
qed

subsection \<open>The simulated deflater and its inflater\<close>

lemma le16_decode:
  assumes "n < 65536"
  shows "n mod 256 + 256 * (n div 256 mod 256) = (n :: nat)"
proof -
  have "n div 256 < 256" using assms by (simp add: less_mult_imp_div_less)
  then show ?thesis by simp
qed

lemma inflate_stored_block:
  assumes "length d \<le> 65535"
  shows "inflate_stored (stored_block True d @ t) = Some (d, 5 + length d)"
    and "inflate_stored (stored_block False d @ t) =
           (case inflate_stored t of None \<Rightarrow> None | Some (d', n) \<Rightarrow> Some (d @ d', 5 + length d + n))"
proof -
  have a: "length d mod 256 + 256 * (length d div 256 mod 256) = length d"
    using assms by (simp add: le16_decode)
  have b: "(65535 - length d) mod 256 + 256 * ((65535 - length d) div 256 mod 256) = 65535 - length d"
    by (simp add: le16_decode)
  show "inflate_stored (stored_block True d @ t) = Some (d, 5 + length d)"
    using assms by (simp add: stored_block_def le16_def a b Let_def)
  show "inflate_stored (stored_block False d @ t) =
           (case inflate_stored t of None \<Rightarrow> None | Some (d', n) \<Rightarrow> Some (d @ d', 5 + length d + n))"
    using assms by (simp add: stored_block_def le16_def a b Let_def split: option.splits prod.splits)
qed

lemma length_stored_block: "length (stored_block f d) = 5 + length d"
  by (simp add: stored_block_def le16_def)

lemma inflate_stored_blocks:
  "inflate_stored (stored_blocks d @ t) = Some (d, length (stored_blocks d))"
proof (induction d rule: stored_blocks.induct)
  case (1 d)
  show ?case
  proof (cases "length d \<le> 65535")
    case True
    then show ?thesis
      by (simp add: stored_blocks.simps [of d] inflate_stored_block(1) length_stored_block)
  next
    case False
    then have ih: "inflate_stored (stored_blocks (drop 65535 d) @ t)
                     = Some (drop 65535 d, length (stored_blocks (drop 65535 d)))"
      using "1.IH" by simp
    have l: "length (take 65535 d) \<le> 65535" by simp
    show ?thesis
      using False ih inflate_stored_block(2) [OF l, of "stored_blocks (drop 65535 d) @ t"]
      by (simp add: stored_blocks.simps [of d] length_stored_block)
  qed
qed

lemma crc32_Update_Nil: "crc32_Update x [] = x"
  by (simp add: crc32_Update_def)

lemma crc32_Update_append: "crc32_Update (crc32_Update x p) q = crc32_Update x (p @ q)"
  by (simp add: crc32_Update_def)

lemma gunzip_sim_stream:
  "gunzip simlib (gz_header @ stored_blocks d @ le32 (crc32_Update 0 d) @ le32 (of_nat (length d)))
     = Some d"
  by (simp add: gunzip_def length_gz_header simlib_def inflate_stored_blocks length_le32)

lemma sim_writer_inv_Write: "sim_writer_inv z \<Longrightarrow> sim_writer_inv (gz_Write simlib p z)"
  by (simp add: sim_writer_inv_def gz_Write_def simlib_def Let_def crc32_Update_append)

lemma sim_writer_inv_foldl:
  "sim_writer_inv z \<Longrightarrow>
   sim_writer_inv (foldl (\<lambda>z p. if p = [] then z else gz_Write simlib p z) z cs)
   \<and> concat (gz_compressor (foldl (\<lambda>z p. if p = [] then z else gz_Write simlib p z) z cs))
       = concat (gz_compressor z) @ concat cs"
proof (induction cs arbitrary: z)
  case Nil
  then show ?case by simp
next
  case (Cons c cs)
  show ?case
  proof (cases "c = []")
    case True
    then show ?thesis using Cons.IH [OF Cons.prems] by simp
  next
    case False
    have "concat (gz_compressor (gz_Write simlib c z)) = concat (gz_compressor z) @ c"
      by (simp add: gz_Write_def Let_def)
    then show ?thesis
      using False Cons.IH [OF sim_writer_inv_Write [OF Cons.prems, of c]] by simp
  qed
qed

lemma sim_io_Copy:
  "sim_writer_inv (fst (io_Copy simlib (gzip_NewWriter []) rd))
   \<and> concat (gz_compressor (fst (io_Copy simlib (gzip_NewWriter []) rd))) = concat (chunks rd)"
proof -
  have "sim_writer_inv (gzip_NewWriter [])"
    by (simp add: sim_writer_inv_def gzip_NewWriter_def crc32_Update_Nil)
  from sim_writer_inv_foldl [OF this, of "chunks rd"] show ?thesis
    by (simp add: io_Copy_def gzip_NewWriter_def)
qed

lemma sim_Close:
  assumes "sim_writer_inv z"
  shows "gz_w (gz_Close simlib z)
           = gz_header @ stored_blocks (concat (gz_compressor z))
               @ le32 (crc32_Update 0 (concat (gz_compressor z)))
               @ le32 (of_nat (length (concat (gz_compressor z))))"
  using assms
  by (simp add: sim_writer_inv_def gz_Close_def gz_Write_def Let_def crc32_Update_Nil)
     (simp add: simlib_def)

lemma gunzip_unfinished:
  assumes "sim_writer_inv z"
  shows "gunzip simlib (gz_w z) = None"
  using assms by (simp add: sim_writer_inv_def gunzip_def length_gz_header) (simp add: simlib_def)

text \<open>
  Claim C2 does not hold of the code either, by the same deferred \<open>gw.Close()\<close>. On the
  simulated platform, for every input, the body of the request sent does not decompress
  at all (it is empty or the gzip header alone), whereas the buffer of the writer once
  closed decompresses to the input: the round trip holds of the closed stream, which is
  not the one that is sent.
\<close>

theorem Upload_body_not_gzip:
  assumes "confirmCode \<noteq> []" and "rerr rd = None"
    and "url_Parse simlib (url cl @ ''u/'' @ confirmCode) = Inr u"
  shows "map (\<lambda>r. map_option (gunzip simlib) (ReqBody r))
           (drop (length (sent w)) (sent (fst (snd (snd (Upload simlib dec cl confirmCode (Some rd) w))))))
           = [Some None]
         \<and> map_option (\<lambda>z. gunzip simlib (gz_w z))
             (snd (snd (snd (Upload simlib dec cl confirmCode (Some rd) w))))
           = Some (Some (concat (chunks rd)))"
proof (intro conjI)
  let ?gw = "fst (io_Copy simlib (gzip_NewWriter []) rd)"
  have i: "sim_writer_inv ?gw" and c: "concat (gz_compressor ?gw) = concat (chunks rd)"
    using sim_io_Copy [of rd] by simp_all
  show "map (\<lambda>r. map_option (gunzip simlib) (ReqBody r))
           (drop (length (sent w)) (sent (fst (snd (snd (Upload simlib dec cl confirmCode (Some rd) w))))))
           = [Some None]"
    by (simp add: Upload_sent(1) [OF assms refl] gunzip_unfinished [OF i])
  show "map_option (\<lambda>z. gunzip simlib (gz_w z))
             (snd (snd (snd (Upload simlib dec cl confirmCode (Some rd) w))))
           = Some (Some (concat (chunks rd)))"
    by (simp add: Upload_sent(2) [OF assms refl] sim_Close [OF i] c gunzip_sim_stream)
qed

theorem Upload_body_not_gzip_hello:
  "map (\<lambda>r. map_option (gunzip simlib) (ReqBody r))
           (sent (fst (snd (snd (Upload simlib (sim_Decode :: (string \<rightharpoonup> nat) decoder) sim_client
                                   ''CODE1'' (Some (Reader [''hello''] None)) world0)))))
           = [Some None]
   \<and> map_option (\<lambda>z. gunzip simlib (gz_w z))
             (snd (snd (snd (Upload simlib (sim_Decode :: (string \<rightharpoonup> nat) decoder) sim_client
                                   ''CODE1'' (Some (Reader [''hello''] None)) world0))))
           = Some (Some ''hello'')"
proof -
  have p: "url_Parse simlib (url sim_client @ ''u/'' @ ''CODE1'')
             = Inr \<lparr>Scheme = ''https'', Opaque = ''//api.cylance.com/apiv2/u/CODE1''\<rparr>"
    by (simp add: simlib_def sim_Parse_def ToLower_def sim_client_def DefaultURL_def)
  show ?thesis
    using Upload_body_not_gzip [where confirmCode = "''CODE1''" and rd = "Reader [''hello''] None"
        and cl = sim_client and w = world0 and dec = "sim_Decode :: (string \<rightharpoonup> nat) decoder", OF _ _ p]
    by (simp add: world0_def)
qed

end
